theory Spec2Isabelle
  imports Complex_Main "HOL-Library.Word"
begin

unbundle bit_operations_syntax

section \<open>Values shared by both transport bindings\<close>

text \<open>
  The Python objects that travel through the dispatch engine.  \<open>JNull\<close> is \<open>None\<close>, a
  \<open>dict\<close> is an association list in insertion order (its keys are strings), a \<open>list\<close> is a
  list.  \<open>JObject t\<close> is an object of any other class, given by the name \<open>t\<close> of its
  class (a \<open>set\<close>, a \<open>datetime\<close>): a handler may put one into what it returns, and
  \<open>json.dumps\<close> refuses it.  What \<open>json.loads\<close> returns holds no such object, so
  envelopes, requests and properties hold none.  Objects are values: a handler that
  mutates a dictionary it shares with its caller is outside this model.
\<close>

datatype json =
    JNull
  | JBool bool
  | JInt int
  | JFloat rat
  | JStr string
  | JArr "json list"
  | JObj "(string \<times> json) list"
  | JObject string

type_synonym pydict = "(string \<times> json) list"

text \<open>
  A raised exception: the name of its class (\<open>type(e).__name__\<close>) and \<open>str(e)\<close>.
  Only subclasses of \<open>Exception\<close> are modelled, so \<open>except Exception\<close> catches every
  value of this type; \<open>SystemExit\<close> and \<open>KeyboardInterrupt\<close> are outside the model.
\<close>

datatype exc = Exc (exc_kind: string) (exc_msg: string)

text \<open>\<open>d.get(k, default)\<close>, \<open>k in d\<close> and \<open>d[k] = v\<close> on a dictionary.\<close>

definition dict_get :: "pydict \<Rightarrow> string \<Rightarrow> json \<Rightarrow> json" where
  "dict_get d k dflt = (case map_of d k of Some v \<Rightarrow> v | None \<Rightarrow> dflt)"

definition dict_has :: "pydict \<Rightarrow> string \<Rightarrow> bool" where
  "dict_has d k = (map_of d k \<noteq> None)"

fun dict_set :: "pydict \<Rightarrow> string \<Rightarrow> json \<Rightarrow> pydict" where
  "dict_set [] k v = [(k, v)]"
| "dict_set ((k', v') # d) k v =
     (if k' = k then (k, v) # d else (k', v') # dict_set d k v)"

text \<open>\<open>d.update(other)\<close>: the entries of \<open>other\<close> are stored one by one, in order.\<close>

fun dict_update :: "pydict \<Rightarrow> pydict \<Rightarrow> pydict" where
  "dict_update d [] = d"
| "dict_update d ((k, v) # other) = dict_update (dict_set d k v) other"

text \<open>
  \<open>x.get(k, default)\<close> on an arbitrary object: only a dictionary has the method; on
  \<open>None\<close>, a list, a string or a number Python raises \<open>AttributeError\<close>.
\<close>

definition type_name :: "json \<Rightarrow> string" where
  "type_name v = (case v of JNull \<Rightarrow> ''NoneType'' | JBool _ \<Rightarrow> ''bool'' | JInt _ \<Rightarrow> ''int''
     | JFloat _ \<Rightarrow> ''float'' | JStr _ \<Rightarrow> ''str'' | JArr _ \<Rightarrow> ''list'' | JObj _ \<Rightarrow> ''dict''
     | JObject t \<Rightarrow> t)"

definition sq :: string where
  "sq = [CHR 0x27]"

definition no_get_attribute :: "json \<Rightarrow> exc" where
  "no_get_attribute x = Exc ''AttributeError''
     (sq @ type_name x @ sq @ '' object has no attribute '' @ sq @ ''get'' @ sq)"

definition py_get :: "json \<Rightarrow> string \<Rightarrow> json \<Rightarrow> exc + json" where
  "py_get x k dflt = (case x of
       JObj d \<Rightarrow> Inr (dict_get d k dflt)
     | _ \<Rightarrow> Inl (no_get_attribute x))"

text \<open>Decimal rendering of a non-negative integer, as \<open>str(i)\<close> and \<open>f"{i}"\<close> give it.\<close>

fun dec_str :: "nat \<Rightarrow> string" where
  "dec_str n = (if n < 10 then [''0123456789'' ! n]
                else dec_str (n div 10) @ [''0123456789'' ! (n mod 10)])"

declare dec_str.simps [simp del]

text \<open>
  \<open>json.dumps\<close> walks a document in order and raises \<open>TypeError\<close> at the first object
  it cannot encode.  \<open>unserializable\<close> gives the class name of that object, and
  \<open>json_dumps_error\<close> the exception, if there is one.
\<close>

function unserializable :: "json \<Rightarrow> string option"
  and unserializable_elems :: "json list \<Rightarrow> string option"
  and unserializable_items :: "pydict \<Rightarrow> string option" where
  "unserializable JNull = None"
| "unserializable (JBool b) = None"
| "unserializable (JInt i) = None"
| "unserializable (JFloat r) = None"
| "unserializable (JStr s) = None"
| "unserializable (JArr xs) = unserializable_elems xs"
| "unserializable (JObj d) = unserializable_items d"
| "unserializable (JObject t) = Some t"
| "unserializable_elems [] = None"
| "unserializable_elems (x # xs) =
     (case unserializable x of Some t \<Rightarrow> Some t | None \<Rightarrow> unserializable_elems xs)"
| "unserializable_items [] = None"
| "unserializable_items ((k, v) # d) =
     (case unserializable v of Some t \<Rightarrow> Some t | None \<Rightarrow> unserializable_items d)"
  by pat_completeness auto
termination
  by (relation "measure (\<lambda>a. case a of
        Inl v \<Rightarrow> size v
      | Inr (Inl xs) \<Rightarrow> size_list size xs
      | Inr (Inr d) \<Rightarrow> size_list (size_prod (\<lambda>_. 0) size) d)") auto

definition serializable :: "json \<Rightarrow> bool" where
  "serializable v = (unserializable v = None)"

definition json_dumps_error :: "json \<Rightarrow> exc option" where
  "json_dumps_error v =
     (case unserializable v of
        None \<Rightarrow> None
      | Some t \<Rightarrow> Some (Exc ''TypeError'' (''Object of type '' @ t @ '' is not JSON serializable'')))"

section \<open>The transform handler: JSON\_FLATTEN\<close>

text \<open>
  \<open>TransformPythonHandler._json_flatten(data, prefix)\<close>.  The loop over \<open>data.items()\<close>
  is \<open>flatten_items\<close>, the inner loop over \<open>enumerate(v)\<close> is \<open>flatten_elems\<close>; both carry
  the dictionary \<open>items\<close> built so far.  Every call, the recursive ones included, returns
  the wrapper \<open>{"flattened": items, "keyCount": len(items)}\<close>, and the caller passes that
  returned dictionary to \<open>items.update\<close>.
\<close>

definition flatten_result :: "pydict \<Rightarrow> pydict" where
  "flatten_result items =
     [(''flattened'', JObj items), (''keyCount'', JInt (int (length items)))]"

definition join_key :: "string \<Rightarrow> string \<Rightarrow> string" where
  "join_key prefix k = (if prefix \<noteq> [] then prefix @ ''.'' @ k else k)"

definition index_key :: "string \<Rightarrow> nat \<Rightarrow> string" where
  "index_key new_key i = new_key @ ''['' @ dec_str i @ '']''"

function flatten_items :: "pydict \<Rightarrow> string \<Rightarrow> pydict \<Rightarrow> pydict"
  and flatten_elems :: "json list \<Rightarrow> nat \<Rightarrow> string \<Rightarrow> pydict \<Rightarrow> pydict" where
  "flatten_items [] prefix items = items"
| "flatten_items ((k, v) # rest) prefix items =
     flatten_items rest prefix
       (case v of
          JObj d \<Rightarrow> dict_update items (flatten_result (flatten_items d (join_key prefix k) []))
        | JArr xs \<Rightarrow> flatten_elems xs 0 (join_key prefix k) items
        | _ \<Rightarrow> dict_set items (join_key prefix k) v)"
| "flatten_elems [] i new_key items = items"
| "flatten_elems (item # xs) i new_key items =
     flatten_elems xs (Suc i) new_key
       (case item of
          JObj d \<Rightarrow> dict_update items (flatten_result (flatten_items d (index_key new_key i) []))
        | _ \<Rightarrow> dict_set items (index_key new_key i) item)"
  by pat_completeness auto
termination
  by (relation "measure (\<lambda>a. case a of
        Inl (d, _, _) \<Rightarrow> size_list (size_prod (\<lambda>_. 0) size) d
      | Inr (xs, _, _, _) \<Rightarrow> size_list size xs)") auto

definition json_flatten :: "pydict \<Rightarrow> string \<Rightarrow> pydict" where
  "json_flatten data prefix = flatten_result (flatten_items data prefix [])"

section \<open>The transform handler: SHA256\<close>

text \<open>
  \<open>_sha256(text)\<close> calls \<open>hashlib.sha256(text.encode("utf-8")).hexdigest()\<close>.  The
  text given to this operation is a Python \<open>str\<close>: a list of code points (in Python
  each is below \<open>0x110000\<close>); \<open>len\<close> counts code points.
\<close>

type_synonym byte = "8 word"
type_synonym u32 = "32 word"
type_synonym unicode = "nat list"

definition is_surrogate :: "nat \<Rightarrow> bool" where
  "is_surrogate c = (0xD800 \<le> c \<and> c \<le> 0xDFFF)"

text \<open>
  \<open>text.encode("utf-8")\<close>: one to four bytes for a code point.  The strict encoder
  raises \<open>UnicodeEncodeError\<close> at the first surrogate; the message names the position of
  the run of surrogates that starts there, and the character when the run has length one.
\<close>

definition utf8_char :: "nat \<Rightarrow> byte list" where
  "utf8_char c =
     (if c < 0x80 then [of_nat c]
      else if c < 0x800 then [of_nat (0xC0 + c div 0x40), of_nat (0x80 + c mod 0x40)]
      else if c < 0x10000 then
        [of_nat (0xE0 + c div 0x1000), of_nat (0x80 + c div 0x40 mod 0x40),
         of_nat (0x80 + c mod 0x40)]
      else
        [of_nat (0xF0 + c div 0x40000), of_nat (0x80 + c div 0x1000 mod 0x40),
         of_nat (0x80 + c div 0x40 mod 0x40), of_nat (0x80 + c mod 0x40)])"

definition backslash :: string where
  "backslash = [CHR 0x5C]"

definition hex4 :: "nat \<Rightarrow> string" where
  "hex4 c = map (\<lambda>d. ''0123456789abcdef'' ! (c div d mod 16)) [4096, 256, 16, 1]"

definition surrogates_not_allowed :: "unicode \<Rightarrow> nat \<Rightarrow> exc" where
  "surrogates_not_allowed text start =
     (let run = length (takeWhile is_surrogate (drop start text)) in
      Exc ''UnicodeEncodeError''
        (sq @ ''utf-8'' @ sq @ '' codec can'' @ sq @ ''t encode ''
         @ (if run = 1
            then ''character '' @ sq @ backslash @ ''u'' @ hex4 (text ! start) @ sq
                 @ '' in position '' @ dec_str start
            else ''characters in position '' @ dec_str start @ ''-''
                 @ dec_str (start + run - 1))
         @ '': surrogates not allowed''))"

definition utf8_encode :: "unicode \<Rightarrow> exc + byte list" where
  "utf8_encode text =
     (let start = length (takeWhile (\<lambda>c. \<not> is_surrogate c) text) in
      if start < length text then Inl (surrogates_not_allowed text start)
      else Inr (concat (map utf8_char text)))"

text \<open>
  \<open>hashlib.sha256\<close> is SHA-256 of FIPS 180-4, written out here on 32-bit words:
  padding, the message schedule kept as a sliding window of sixteen words, sixty-four
  rounds per block.
\<close>

definition rotr :: "nat \<Rightarrow> u32 \<Rightarrow> u32" where
  "rotr n x = drop_bit n x OR push_bit (32 - n) x"

definition Ch :: "u32 \<Rightarrow> u32 \<Rightarrow> u32 \<Rightarrow> u32" where
  "Ch x y z = (x AND y) XOR (NOT x AND z)"

definition Maj :: "u32 \<Rightarrow> u32 \<Rightarrow> u32 \<Rightarrow> u32" where
  "Maj x y z = (x AND y) XOR (x AND z) XOR (y AND z)"

definition big_sigma0 :: "u32 \<Rightarrow> u32" where
  "big_sigma0 x = rotr 2 x XOR rotr 13 x XOR rotr 22 x"

definition big_sigma1 :: "u32 \<Rightarrow> u32" where
  "big_sigma1 x = rotr 6 x XOR rotr 11 x XOR rotr 25 x"

definition small_sigma0 :: "u32 \<Rightarrow> u32" where
  "small_sigma0 x = rotr 7 x XOR rotr 18 x XOR drop_bit 3 x"

definition small_sigma1 :: "u32 \<Rightarrow> u32" where
  "small_sigma1 x = rotr 17 x XOR rotr 19 x XOR drop_bit 10 x"

definition round_constants :: "u32 list" where
  "round_constants =
    [
     1116352408, 1899447441, 3049323471, 3921009573, 961987163, 1508970993, 2453635748, 2870763221,
     3624381080, 310598401, 607225278, 1426881987, 1925078388, 2162078206, 2614888103, 3248222580,
     3835390401, 4022224774, 264347078, 604807628, 770255983, 1249150122, 1555081692, 1996064986,
     2554220882, 2821834349, 2952996808, 3210313671, 3336571891, 3584528711, 113926993, 338241895,
     666307205, 773529912, 1294757372, 1396182291, 1695183700, 1986661051, 2177026350, 2456956037,
     2730485921, 2820302411, 3259730800, 3345764771, 3516065817, 3600352804, 4094571909, 275423344,
     430227734, 506948616, 659060556, 883997877, 958139571, 1322822218, 1537002063, 1747873779,
     1955562222, 2024104815, 2227730452, 2361852424, 2428436474, 2756734187, 3204031479, 3329325298]"

record hash_state =
  reg_a :: u32
  reg_b :: u32
  reg_c :: u32
  reg_d :: u32
  reg_e :: u32
  reg_f :: u32
  reg_g :: u32
  reg_h :: u32

definition initial_hash :: hash_state where
  "initial_hash = \<lparr>reg_a = 1779033703, reg_b = 3144134277, reg_c = 1013904242, reg_d = 2773480762,
                    reg_e = 1359893119, reg_f = 2600822924, reg_g = 528734635, reg_h = 1541459225\<rparr>"

definition be_word :: "byte \<Rightarrow> byte \<Rightarrow> byte \<Rightarrow> byte \<Rightarrow> u32" where
  "be_word b3 b2 b1 b0 =
     push_bit 24 (ucast b3) OR push_bit 16 (ucast b2) OR push_bit 8 (ucast b1) OR ucast b0"

fun words_of :: "byte list \<Rightarrow> u32 list" where
  "words_of (b3 # b2 # b1 # b0 # rest) = be_word b3 b2 b1 b0 # words_of rest"
| "words_of _ = []"

text \<open>
  The window holds the schedule words \<open>W\<^sub>t .. W\<^sub>t\<^sub>+\<^sub>1\<^sub>5\<close>; the next one is
  \<open>\<sigma>\<^sub>1(W\<^sub>t\<^sub>+\<^sub>1\<^sub>4) + W\<^sub>t\<^sub>+\<^sub>9 + \<sigma>\<^sub>0(W\<^sub>t\<^sub>+\<^sub>1) + W\<^sub>t\<close>.
\<close>

definition next_window :: "u32 list \<Rightarrow> u32 list" where
  "next_window w =
     tl w @ [small_sigma1 (w ! 14) + w ! 9 + small_sigma0 (w ! 1) + w ! 0]"

definition round_step :: "hash_state \<Rightarrow> u32 \<Rightarrow> u32 \<Rightarrow> hash_state" where
  "round_step s k w =
     (let t1 = reg_h s + big_sigma1 (reg_e s) + Ch (reg_e s) (reg_f s) (reg_g s) + k + w;
          t2 = big_sigma0 (reg_a s) + Maj (reg_a s) (reg_b s) (reg_c s)
      in \<lparr>reg_a = t1 + t2, reg_b = reg_a s, reg_c = reg_b s, reg_d = reg_c s,
          reg_e = reg_d s + t1, reg_f = reg_e s, reg_g = reg_f s, reg_h = reg_g s\<rparr>)"

definition schedule_round :: "u32 list \<times> hash_state \<Rightarrow> u32 \<Rightarrow> u32 list \<times> hash_state" where
  "schedule_round ws k = (next_window (fst ws), round_step (snd ws) k (hd (fst ws)))"

definition compress :: "hash_state \<Rightarrow> byte list \<Rightarrow> hash_state" where
  "compress h block =
     (let s = snd (foldl schedule_round (words_of block, h) round_constants)
      in \<lparr>reg_a = reg_a h + reg_a s, reg_b = reg_b h + reg_b s,
          reg_c = reg_c h + reg_c s, reg_d = reg_d h + reg_d s,
          reg_e = reg_e h + reg_e s, reg_f = reg_f h + reg_f s,
          reg_g = reg_g h + reg_g s, reg_h = reg_h h + reg_h s\<rparr>)"

definition bit_length_bytes :: "nat \<Rightarrow> byte list" where
  "bit_length_bytes n = (let l = (of_nat (8 * n) :: 64 word) in
     [ucast (drop_bit 56 l), ucast (drop_bit 48 l), ucast (drop_bit 40 l),
      ucast (drop_bit 32 l), ucast (drop_bit 24 l), ucast (drop_bit 16 l),
      ucast (drop_bit 8 l), ucast l])"

definition pad_message :: "byte list \<Rightarrow> byte list" where
  "pad_message m =
     m @ [128] @ replicate ((119 - length m mod 64) mod 64) 0 @ bit_length_bytes (length m)"

function blocks_of :: "byte list \<Rightarrow> byte list list" where
  "blocks_of bs = (if length bs < 64 then [] else take 64 bs # blocks_of (drop 64 bs))"
  by pat_completeness auto
termination
  by (relation "measure length") auto

declare blocks_of.simps [simp del]

definition hashlib_sha256 :: "byte list \<Rightarrow> hash_state" where
  "hashlib_sha256 m = foldl compress initial_hash (blocks_of (pad_message m))"

definition hex_digit :: "u32 \<Rightarrow> char" where
  "hex_digit n = ''0123456789abcdef'' ! unat n"

definition hex_word :: "u32 \<Rightarrow> string" where
  "hex_word w = map (\<lambda>i. hex_digit (drop_bit i w AND 15)) [28, 24, 20, 16, 12, 8, 4, 0]"

definition hexdigest :: "hash_state \<Rightarrow> string" where
  "hexdigest s = concat (map hex_word
     [reg_a s, reg_b s, reg_c s, reg_d s, reg_e s, reg_f s, reg_g s, reg_h s])"

text \<open>\<open>TransformPythonHandler._sha256(text)\<close>.\<close>

definition sha256_op :: "unicode \<Rightarrow> exc + pydict" where
  "sha256_op text =
     (case utf8_encode text of
        Inl e \<Rightarrow> Inl e
      | Inr encoded \<Rightarrow>
          (let digest = hexdigest (hashlib_sha256 encoded)
           in Inr [(''hash'', JStr digest), (''algorithm'', JStr ''SHA-256''),
                   (''inputLength'', JInt (int (length text)))]))"

section \<open>The socket worker\<close>

subsection \<open>Handlers of the cached-instance contract\<close>

text \<open>
  A handler class of the worker (\<open>DGHandlerBase\<close> and its subclasses) is given by its
  three lifecycle methods over the instance attributes \<open>'st\<close>; each returns the
  exception it raised, if any, and the attributes as the call left them.  An instance is
  its class together with its current attributes.
\<close>

record 'st wclass =
  w_construct :: "json \<Rightarrow> 'st \<Rightarrow> exc option \<times> 'st"
  w_execute :: "json \<Rightarrow> json \<Rightarrow> 'st \<Rightarrow> (exc + json) \<times> 'st"
  w_cleanup :: "'st \<Rightarrow> exc option \<times> 'st"

record 'st winstance =
  w_methods :: "'st wclass"
  w_self :: 'st

text \<open>
  Python truthiness, for \<open>config or {}\<close>.  It is only asked of what \<open>json.loads\<close>
  returned; an object of another class counts as true, as one without \<open>__bool__\<close> and
  \<open>__len__\<close> does.
\<close>

definition truthy :: "json \<Rightarrow> bool" where
  "truthy v = (case v of JNull \<Rightarrow> False | JBool b \<Rightarrow> b | JInt i \<Rightarrow> i \<noteq> 0
     | JFloat r \<Rightarrow> r \<noteq> 0 | JStr s \<Rightarrow> s \<noteq> [] | JArr xs \<Rightarrow> xs \<noteq> [] | JObj d \<Rightarrow> d \<noteq> []
     | JObject t \<Rightarrow> True)"

text \<open>\<open>DGHandlerBase\<close>: its only attribute is \<open>self.config\<close>.\<close>

definition DGHandlerBase :: "json wclass" where
  "DGHandlerBase = \<lparr>
     w_construct = (\<lambda>config self. (None, if truthy config then config else JObj [])),
     w_execute = (\<lambda>request app_properties self.
        (Inl (Exc ''NotImplementedError'' ''Handler must implement execute()''), self)),
     w_cleanup = (\<lambda>self. (None, self))\<rparr>"

text \<open>
  What the worker takes from outside the repository: \<open>json.loads\<close> on a string,
  \<open>str\<close> of a value that is not a string, the import machinery followed by the
  constructor call (\<open>import_module\<close>, \<open>getattr\<close>, \<open>cls()\<close>), \<open>traceback.format_exc\<close>,
  the clock, and the two globals fixed at start-up.  For the frame codec,
  \<open>dumps_bytes\<close> is \<open>json.dumps(data).encode("utf-8")\<close> on a document that
  \<open>json.dumps\<close> accepts, and \<open>loads_bytes\<close> is \<open>json.loads(b.decode("utf-8"))\<close>.
\<close>

record 'st wenv =
  json_loads :: "string \<Rightarrow> exc + json"
  str_of :: "json \<Rightarrow> string"
  import_handler :: "json \<Rightarrow> json \<Rightarrow> exc + 'st winstance"
  format_exc :: "exc \<Rightarrow> string"
  utc_now :: string
  WORKER_ID :: int
  APP_PROPERTIES :: json
  dumps_bytes :: "json \<Rightarrow> byte list"
  loads_bytes :: "byte list \<Rightarrow> exc + json"

text \<open>A value inside an f-string: a string is taken as it is, anything else through \<open>str\<close>.\<close>

definition fmt :: "'st wenv \<Rightarrow> json \<Rightarrow> string" where
  "fmt env v = (case v of JStr s \<Rightarrow> s | _ \<Rightarrow> str_of env v)"

text \<open>
  \<open>json.loads(x)\<close> on a field of the envelope, itself a value that \<open>json.loads\<close>
  returned: the library parses a string and raises \<open>TypeError\<close> on any other JSON value.
\<close>

definition py_json_loads :: "'st wenv \<Rightarrow> json \<Rightarrow> exc + json" where
  "py_json_loads env x = (case x of
       JStr s \<Rightarrow> json_loads env s
     | _ \<Rightarrow> Inl (Exc ''TypeError''
         (''the JSON object must be str, bytes or bytearray, not '' @ type_name x)))"

text \<open>
  The mutable state of the worker process: the global \<open>_handler_cache\<close>, and a log of
  the lifecycle calls made on handler instances, kept to count them.
\<close>

datatype wcall = CallConstruct | CallExecute | CallCleanup

record 'st worker =
  handler_cache :: "string \<rightharpoonup> 'st winstance"
  lifecycle :: "wcall list"

text \<open>
  \<open>get_handler_instance\<close> returns the cached object; the model returns its cache key
  with the instance, and every later method call stores the instance back under that key,
  as the mutation of the shared object would.
\<close>

definition get_handler_instance ::
  "'st wenv \<Rightarrow> json \<Rightarrow> json \<Rightarrow> 'st worker \<Rightarrow> (exc + string \<times> 'st winstance) \<times> 'st worker" where
  "get_handler_instance env module_name class_name s =
     (let cache_key = fmt env module_name @ ''.'' @ fmt env class_name in
      case handler_cache s cache_key of
        Some instance \<Rightarrow> (Inr (cache_key, instance), s)
      | None \<Rightarrow>
          (case import_handler env module_name class_name of
             Inr instance \<Rightarrow>
               (Inr (cache_key, instance),
                s\<lparr>handler_cache := (handler_cache s)(cache_key \<mapsto> instance)\<rparr>)
           | Inl e \<Rightarrow>
               (Inl (Exc ''ImportError''
                  (''Cannot load handler '' @ cache_key @ '': '' @ exc_msg e)), s)))"

definition store_instance ::
  "string \<Rightarrow> 'st winstance \<Rightarrow> wcall \<Rightarrow> 'st worker \<Rightarrow> 'st worker" where
  "store_instance key instance call s =
     s\<lparr>handler_cache := (handler_cache s)(key \<mapsto> instance),
       lifecycle := lifecycle s @ [call]\<rparr>"

definition call_construct ::
  "string \<Rightarrow> 'st winstance \<Rightarrow> json \<Rightarrow> 'st worker \<Rightarrow> exc option \<times> 'st winstance \<times> 'st worker" where
  "call_construct key instance config s =
     (case w_construct (w_methods instance) config (w_self instance) of
        (r, self') \<Rightarrow>
          (r, instance\<lparr>w_self := self'\<rparr>,
           store_instance key (instance\<lparr>w_self := self'\<rparr>) CallConstruct s))"

definition call_execute ::
  "'st wenv \<Rightarrow> string \<Rightarrow> 'st winstance \<Rightarrow> json \<Rightarrow> 'st worker
     \<Rightarrow> (exc + json) \<times> 'st winstance \<times> 'st worker" where
  "call_execute env key instance request s =
     (case w_execute (w_methods instance) request (APP_PROPERTIES env) (w_self instance) of
        (r, self') \<Rightarrow>
          (r, instance\<lparr>w_self := self'\<rparr>,
           store_instance key (instance\<lparr>w_self := self'\<rparr>) CallExecute s))"

definition call_cleanup ::
  "string \<Rightarrow> 'st winstance \<Rightarrow> 'st worker \<Rightarrow> exc option \<times> 'st worker" where
  "call_cleanup key instance s =
     (case w_cleanup (w_methods instance) (w_self instance) of
        (r, self') \<Rightarrow> (r, store_instance key (instance\<lparr>w_self := self'\<rparr>) CallCleanup s))"

subsection \<open>Request processing\<close>

text \<open>Lines 147 to 153 of the worker: the defaults put into the handler's result.\<close>

definition normalize_result :: "'st wenv \<Rightarrow> json \<Rightarrow> pydict" where
  "normalize_result env result =
     (let r1 = (case result of
                  JObj d \<Rightarrow> d
                | _ \<Rightarrow> [(''status'', JStr ''SUCCESS''),
                        (''data'', JObj [(''result'', JStr (fmt env result))])]);
          r2 = (if \<not> dict_has r1 ''status'' then dict_set r1 ''status'' (JStr ''SUCCESS'')
                else r1);
          r3 = (if \<not> dict_has r2 ''data'' \<and> dict_get r2 ''status'' JNull = JStr ''SUCCESS''
                then dict_set r2 ''data'' (JObj []) else r2)
      in r3)"

definition failure_result :: "'st wenv \<Rightarrow> json \<Rightarrow> json \<Rightarrow> exc \<Rightarrow> json" where
  "failure_result env handler_module handler_class e =
     JObj [(''status'', JStr ''ERROR''),
           (''error_message'', JStr (''Python handler '' @ fmt env handler_module @ ''.''
                @ fmt env handler_class @ '' failed: '' @ exc_msg e)),
           (''traceback'', JStr (format_exc env e))]"

definition invalid_json_result :: "exc \<Rightarrow> json" where
  "invalid_json_result e =
     JObj [(''status'', JStr ''ERROR''),
           (''error_message'', JStr (''Invalid JSON input: '' @ exc_msg e))]"

text \<open>
  The first \<open>try\<close> of \<open>handle_execute\<close>: both fields are parsed, and only
  \<open>json.JSONDecodeError\<close> is caught; any other exception leaves the function.
\<close>

definition parse_inputs :: "'st wenv \<Rightarrow> json \<Rightarrow> json \<Rightarrow> exc + json \<times> json" where
  "parse_inputs env request_json config_json =
     (case py_json_loads env request_json of
        Inl e \<Rightarrow> Inl e
      | Inr request \<Rightarrow>
          (case py_json_loads env config_json of
             Inl e \<Rightarrow> Inl e
           | Inr config \<Rightarrow> Inr (request, config)))"

text \<open>
  The body of the second \<open>try\<close>.  Beside its outcome it returns the local variable
  \<open>handler\<close>, which stays unbound (\<open>None\<close>) when \<open>get_handler_instance\<close> raises.
\<close>

definition execute_body ::
  "'st wenv \<Rightarrow> json \<Rightarrow> json \<Rightarrow> json \<Rightarrow> json \<Rightarrow> 'st worker
     \<Rightarrow> (string \<times> 'st winstance) option \<times> (exc + json) \<times> 'st worker" where
  "execute_body env handler_module handler_class request config s =
     (case get_handler_instance env handler_module handler_class s of
        (Inl e, s1) \<Rightarrow> (None, Inl e, s1)
      | (Inr (key, handler), s1) \<Rightarrow>
          (case call_construct key handler config s1 of
             (Some e, handler1, s2) \<Rightarrow> (Some (key, handler1), Inl e, s2)
           | (None, handler1, s2) \<Rightarrow>
               (case call_execute env key handler1 request s2 of
                  (Inl e, handler2, s3) \<Rightarrow> (Some (key, handler2), Inl e, s3)
                | (Inr result, handler2, s3) \<Rightarrow>
                    (Some (key, handler2), Inr (JObj (normalize_result env result)), s3))))"

text \<open>
  The \<open>finally\<close> clause: \<open>handler.cleanup()\<close> inside \<open>try ... except Exception: pass\<close>.
  With \<open>handler\<close> unbound the call itself raises \<open>UnboundLocalError\<close>, which the same
  clause swallows, and no method runs.
\<close>

definition finally_cleanup ::
  "(string \<times> 'st winstance) option \<Rightarrow> 'st worker \<Rightarrow> 'st worker" where
  "finally_cleanup handler s =
     (case handler of None \<Rightarrow> s | Some (key, instance) \<Rightarrow> snd (call_cleanup key instance s))"

definition handle_execute ::
  "'st wenv \<Rightarrow> json \<Rightarrow> 'st worker \<Rightarrow> (exc + json) \<times> 'st worker" where
  "handle_execute env data s =
     (case data of
        JObj d \<Rightarrow>
          (let handler_module = dict_get d ''handler_module'' (JStr '''');
               handler_class = dict_get d ''handler_class'' (JStr '''');
               request_json = dict_get d ''request_json'' (JStr ''{}'');
               config_json = dict_get d ''config_json'' (JStr ''{}'')
           in case parse_inputs env request_json config_json of
                Inl e \<Rightarrow>
                  if exc_kind e = ''JSONDecodeError'' then (Inr (invalid_json_result e), s)
                  else (Inl e, s)
              | Inr (request, config) \<Rightarrow>
                  (case execute_body env handler_module handler_class request config s of
                     (handler, Inr result, s1) \<Rightarrow> (Inr result, finally_cleanup handler s1)
                   | (handler, Inl e, s1) \<Rightarrow>
                       (Inr (failure_result env handler_module handler_class e),
                        finally_cleanup handler s1)))
      | _ \<Rightarrow> (Inl (no_get_attribute data), s))"

definition handle_request ::
  "'st wenv \<Rightarrow> json \<Rightarrow> 'st worker \<Rightarrow> (exc + json) \<times> 'st worker" where
  "handle_request env data s =
     (case py_get data ''command'' (JStr '''') of
        Inl e \<Rightarrow> (Inl e, s)
      | Inr command \<Rightarrow>
          if command = JStr ''ping'' then
            (Inr (JObj [(''status'', JStr ''pong''), (''timestamp'', JStr (utc_now env)),
                        (''worker_id'', JInt (WORKER_ID env))]), s)
          else if command = JStr ''execute'' then handle_execute env data s
          else if command = JStr ''shutdown'' then
            (Inr (JObj [(''status'', JStr ''shutdown_ack'')]), s)
          else
            (Inr (JObj [(''status'', JStr ''ERROR''),
                        (''error_message'', JStr (''Unknown command: '' @ fmt env command))]), s))"

subsection \<open>The frame codec and the connection\<close>

text \<open>
  A connection as the worker sees it: the bytes the peer has sent and not yet been read
  (after them the peer has closed its side), how the network cuts them into chunks, what
  the worker has sent, and whether it has closed the socket.  A blocking \<open>recv(n)\<close>
  returns between one and \<open>n\<close> bytes while bytes are pending and \<open>b""\<close> at the end of
  the stream.  \<open>chunking\<close> gives, call by call, the most bytes the next \<open>recv\<close> delivers
  (an entry below one counts as one); once it is used up, a call delivers all it asked
  for.  \<open>recv_calls\<close> counts the calls.  \<open>sendall\<close> is taken to succeed.
\<close>

record conn =
  inbound :: "byte list"
  chunking :: "nat list"
  recv_calls :: nat
  sent :: "byte list list"
  closed :: bool

definition recv :: "nat \<Rightarrow> conn \<Rightarrow> byte list \<times> conn" where
  "recv bufsize c =
     (let k = (case chunking c of [] \<Rightarrow> bufsize | m # _ \<Rightarrow> min bufsize (max 1 m))
      in (take k (inbound c),
          c\<lparr>inbound := drop k (inbound c), chunking := tl (chunking c),
            recv_calls := Suc (recv_calls c)\<rparr>))"

definition sendall :: "byte list \<Rightarrow> conn \<Rightarrow> conn" where
  "sendall bs c = c\<lparr>sent := sent c @ [bs]\<rparr>"

definition close_conn :: "conn \<Rightarrow> conn" where
  "close_conn c = c\<lparr>closed := True\<rparr>"

text \<open>
  \<open>struct.unpack(">I", raw)\<close> on four bytes, and \<open>struct.pack(">I", n)\<close> for the length
  \<open>n\<close> of a byte string (a number below \<open>2 ^ 63\<close>), which raises \<open>struct.error\<close>
  from \<open>2 ^ 32\<close> on.
\<close>

definition unpack_be32 :: "byte list \<Rightarrow> nat" where
  "unpack_be32 raw = foldl (\<lambda>acc b. acc * 256 + unat b) 0 raw"

definition pack_be32 :: "nat \<Rightarrow> exc + byte list" where
  "pack_be32 n =
     (if n < 2 ^ 32
      then Inr [of_nat (n div 2 ^ 24), of_nat (n div 2 ^ 16), of_nat (n div 2 ^ 8), of_nat n]
      else Inl (Exc ''error''
             (sq @ ''I'' @ sq @ '' format requires 0 <= number <= 4294967295'')))"

text \<open>
  The \<open>while remaining > 0\<close> loop of \<open>read_message\<close>; \<open>None\<close> is the early
  \<open>return None\<close> on an empty chunk.
\<close>

function read_chunks :: "nat \<Rightarrow> byte list list \<Rightarrow> conn \<Rightarrow> byte list list option \<times> conn" where
  "read_chunks remaining chunks c =
     (if remaining > 0 then
        (case recv (min remaining 65536) c of
           (chunk, c') \<Rightarrow>
             if chunk = [] then (None, c')
             else read_chunks (remaining - length chunk) (chunks @ [chunk]) c')
      else (Some chunks, c))"
  by pat_completeness auto
termination
  by (relation "measure (\<lambda>(remaining, chunks, c). remaining)") auto

declare read_chunks.simps [simp del]

definition read_message :: "'st wenv \<Rightarrow> conn \<Rightarrow> (exc + json) \<times> conn" where
  "read_message env c =
     (case recv 4 c of
        (raw_len, c1) \<Rightarrow>
          if length raw_len < 4 then (Inr JNull, c1)
          else
            (let msg_len = unpack_be32 raw_len in
             if msg_len \<le> 0 \<or> msg_len > 50 * 1024 * 1024 then (Inr JNull, c1)
             else
               (case read_chunks msg_len [] c1 of
                  (None, c2) \<Rightarrow> (Inr JNull, c2)
                | (Some chunks, c2) \<Rightarrow> (loads_bytes env (concat chunks), c2))))"

definition write_message :: "'st wenv \<Rightarrow> json \<Rightarrow> conn \<Rightarrow> exc option \<times> conn" where
  "write_message env data c =
     (case json_dumps_error data of
        Some e \<Rightarrow> (Some e, c)
      | None \<Rightarrow>
          (let payload = dumps_bytes env data in
           case pack_be32 (length payload) of
             Inl e \<Rightarrow> (Some e, c)
           | Inr header \<Rightarrow> (None, sendall (header @ payload) c)))"

text \<open>
  \<open>handle_connection\<close>; the result is its return value (\<open>False\<close> stops the accept
  loop), the connection after \<open>conn.close()\<close> and the worker state.
\<close>

definition on_exception ::
  "'st wenv \<Rightarrow> exc \<Rightarrow> conn \<Rightarrow> 'st worker \<Rightarrow> bool \<times> conn \<times> 'st worker" where
  "on_exception env e c s =
     (True,
      close_conn (snd (write_message env
         (JObj [(''status'', JStr ''ERROR''), (''error_message'', JStr (exc_msg e))]) c)),
      s)"

definition handle_connection ::
  "'st wenv \<Rightarrow> conn \<Rightarrow> 'st worker \<Rightarrow> bool \<times> conn \<times> 'st worker" where
  "handle_connection env c s =
     (case read_message env c of
        (Inl e, c1) \<Rightarrow> on_exception env e c1 s
      | (Inr data, c1) \<Rightarrow>
          if data = JNull then (True, close_conn c1, s)
          else
            (case handle_request env data s of
               (Inl e, s1) \<Rightarrow> on_exception env e c1 s1
             | (Inr response, s1) \<Rightarrow>
                 (case write_message env response c1 of
                    (Some e, c2) \<Rightarrow> on_exception env e c2 s1
                  | (None, c2) \<Rightarrow>
                      (case py_get data ''command'' JNull of
                         Inl e \<Rightarrow> on_exception env e c2 s1
                       | Inr command \<Rightarrow>
                           (if command = JStr ''shutdown'' then False else True,
                            close_conn c2, s1)))))"

section \<open>The handler base class of the gateway\<close>

datatype HandlerStatus = CREATED | STARTING | READY | EXECUTING | STOPPING | STOPPED | FAILED

text \<open>
  The attributes \<open>_status\<close>, \<open>_request\<close> and \<open>_app_properties\<close> of a \<open>DGHandler\<close>;
  \<open>JNull\<close> is the initial \<open>None\<close>.
\<close>

record handler_obj =
  h_status :: HandlerStatus
  h_request :: json
  h_app_properties :: json

definition DGHandler_init :: handler_obj where
  "DGHandler_init = \<lparr>h_status = CREATED, h_request = JNull, h_app_properties = JNull\<rparr>"

definition DGHandler_start :: "json \<Rightarrow> handler_obj \<Rightarrow> exc option \<times> handler_obj" where
  "DGHandler_start request self =
     (let self1 = self\<lparr>h_status := STARTING\<rparr>;
          self2 = self1\<lparr>h_request := request\<rparr>;
          self3 = self2\<lparr>h_status := READY\<rparr>
      in (None, self3))"

text \<open>
  \<open>DGHandler.execute\<close>.  The abstract \<open>compute\<close> reads the instance and the request
  and returns a result or raises; \<open>get_request_type\<close> is a constant of the subclass;
  \<open>tb\<close> is \<open>traceback.format_exc\<close> and \<open>elapsed\<close> the value of
  \<open>round(elapsed_ms, 2)\<close> read from the clock.  An exception raised inside the \<open>try\<close>
  block, by \<open>compute\<close> or by \<open>self._request.get\<close>, is handled by the \<open>except\<close> block;
  one raised inside the \<open>except\<close> block leaves the method.
\<close>

definition DGHandler_execute ::
  "(exc \<Rightarrow> string) \<Rightarrow> rat \<Rightarrow> (handler_obj \<Rightarrow> json \<Rightarrow> exc + json) \<Rightarrow> string
     \<Rightarrow> handler_obj \<Rightarrow> (exc + json) \<times> handler_obj" where
  "DGHandler_execute tb elapsed compute get_request_type self =
     (let self1 = self\<lparr>h_status := EXECUTING\<rparr>;
          attempt =
            (case compute self1 (h_request self1) of
               Inl e \<Rightarrow> Inl e
             | Inr result \<Rightarrow>
                 (case py_get (h_request self1) ''requestId'' (JStr ''unknown'') of
                    Inl e \<Rightarrow> Inl e
                  | Inr request_id \<Rightarrow>
                      Inr (JObj [(''status'', JStr ''SUCCESS''),
                                 (''requestId'', request_id),
                                 (''handlerType'', JStr get_request_type),
                                 (''result'', result),
                                 (''executionTimeMs'', JFloat elapsed)])))
      in case attempt of
           Inr response \<Rightarrow> (Inr response, self1\<lparr>h_status := STOPPED\<rparr>)
         | Inl e \<Rightarrow>
             (let self2 = self1\<lparr>h_status := FAILED\<rparr> in
              case py_get (h_request self2) ''requestId'' (JStr ''unknown'') of
                Inl e' \<Rightarrow> (Inl e', self2)
              | Inr request_id \<Rightarrow>
                  (Inr (JObj [(''status'', JStr ''ERROR''),
                              (''requestId'', request_id),
                              (''handlerType'', JStr get_request_type),
                              (''errorCode'', JStr (exc_kind e)),
                              (''errorMessage'', JStr (exc_msg e)),
                              (''stackTrace'', JStr (tb e)),
                              (''executionTimeMs'', JFloat elapsed)]), self2)))"

definition DGHandler_stop :: "json \<Rightarrow> handler_obj \<Rightarrow> exc option \<times> handler_obj" where
  "DGHandler_stop response self = (None, self\<lparr>h_status := STOPPED\<rparr>)"

text \<open>
  A handler class as the gateway uses it: the constructor call \<open>handler_class()\<close> and
  the three lifecycle methods, each of which a subclass may override.  A method returns
  the exception it raised, if any, and the instance as the call left it; it leaves the
  document it is given as it is, as \<open>DGHandler.stop\<close> and the shipped handlers do.
\<close>

record hclass =
  m_new :: "exc + handler_obj"
  m_start :: "json \<Rightarrow> handler_obj \<Rightarrow> exc option \<times> handler_obj"
  m_execute :: "handler_obj \<Rightarrow> (exc + json) \<times> handler_obj"
  m_stop :: "json \<Rightarrow> handler_obj \<Rightarrow> exc option \<times> handler_obj"

section \<open>The gateway delegate\<close>

text \<open>
  What the delegate takes from outside the repository: \<open>json.loads\<close>, the import of a
  module followed by \<open>getattr\<close>, and \<open>traceback.format_exc\<close>.  Logging is left out.
\<close>

record genv =
  g_loads :: "string \<Rightarrow> exc + json"
  g_import :: "string \<Rightarrow> string \<Rightarrow> exc + hclass"
  g_format_exc :: "exc \<Rightarrow> string"

record delegate =
  class_cache :: "string \<rightharpoonup> hclass"
  requests_handled :: int
  errors :: int

text \<open>\<open>name.rsplit(".", 1)\<close>.\<close>

definition rsplit_dot :: "string \<Rightarrow> string list" where
  "rsplit_dot name =
     (if CHR ''.'' \<in> set name
      then [rev (tl (dropWhile (\<lambda>c. c \<noteq> CHR ''.'') (rev name))),
            rev (takeWhile (\<lambda>c. c \<noteq> CHR ''.'') (rev name))]
      else [name])"

definition load_class :: "genv \<Rightarrow> string \<Rightarrow> delegate \<Rightarrow> (exc + hclass) \<times> delegate" where
  "load_class env fully_qualified_name self =
     (case class_cache self fully_qualified_name of
        Some cls \<Rightarrow> (Inr cls, self)
      | None \<Rightarrow>
          (case rsplit_dot fully_qualified_name of
             [module_path, class_name] \<Rightarrow>
               (case g_import env module_path class_name of
                  Inl e \<Rightarrow>
                    if exc_kind e = ''ModuleNotFoundError'' then
                      (Inl (Exc ''ImportError''
                         (''Cannot find module '' @ sq @ module_path @ sq @ '': '' @ exc_msg e
                          @ ''. Check PYTHONPATH includes the handler directory.'')), self)
                    else if exc_kind e = ''AttributeError'' then
                      (Inl (Exc ''ImportError''
                         (''Module '' @ sq @ module_path @ sq @ '' has no class '' @ sq
                          @ class_name @ sq @ '': '' @ exc_msg e)), self)
                    else (Inl e, self)
                | Inr cls \<Rightarrow>
                    (Inr cls,
                     self\<lparr>class_cache := (class_cache self)(fully_qualified_name \<mapsto> cls)\<rparr>))
           | _ \<Rightarrow>
               (Inl (Exc ''ImportError''
                  (''Invalid Python class name: '' @ sq @ fully_qualified_name @ sq
                   @ ''. Expected format: '' @ sq @ ''module.path.ClassName'' @ sq)), self)))"

text \<open>
  \<open>run_lifecycle\<close> is steps 4 to 6 of the \<open>try\<close> block with what follows them there:
  the counter, the log line that reads \<open>response_dict.get("status", "?")\<close>, and
  \<open>json.dumps(response_dict)\<close>, whose \<open>TypeError\<close> on a response that holds an object
  it cannot encode is raised inside the \<open>try\<close>.
  The calls \<open>executeHandler\<close> makes on the instance are logged, \<open>stop\<close> with the response
  it was given.  The local variables that the \<open>except\<close> block reads are returned by the
  \<open>try\<close> block with its outcome: \<open>request_dict\<close> (\<open>None\<close> while unbound) and
  \<open>handler_instance\<close> (\<open>None\<close> until the constructor has returned).
\<close>

datatype gcall = CallStart | CallRun | CallStop json

record attempt =
  outcome :: "exc + json"
  request_dict :: "json option"
  handler_instance :: "(hclass \<times> handler_obj) option"
  self_after :: delegate
  calls :: "gcall list"

definition run_lifecycle ::
  "hclass \<Rightarrow> handler_obj \<Rightarrow> json \<Rightarrow> delegate \<Rightarrow> attempt" where
  "run_lifecycle cls obj request self =
     (case m_start cls request obj of
        (Some e, obj1) \<Rightarrow>
          \<lparr>outcome = Inl e, request_dict = Some request,
           handler_instance = Some (cls, obj1), self_after = self, calls = [CallStart]\<rparr>
      | (None, obj1) \<Rightarrow>
          (case m_execute cls obj1 of
             (Inl e, obj2) \<Rightarrow>
               \<lparr>outcome = Inl e, request_dict = Some request,
                handler_instance = Some (cls, obj2), self_after = self,
                calls = [CallStart, CallRun]\<rparr>
           | (Inr response_dict, obj2) \<Rightarrow>
               (case m_stop cls response_dict obj2 of
                  (Some e, obj3) \<Rightarrow>
                    \<lparr>outcome = Inl e, request_dict = Some request,
                     handler_instance = Some (cls, obj3), self_after = self,
                     calls = [CallStart, CallRun, CallStop response_dict]\<rparr>
                | (None, obj3) \<Rightarrow>
                    \<lparr>outcome =
                       (case py_get response_dict ''status'' (JStr ''?'') of
                          Inl e \<Rightarrow> Inl e
                        | Inr _ \<Rightarrow>
                            (case json_dumps_error response_dict of
                               Some e \<Rightarrow> Inl e
                             | None \<Rightarrow> Inr response_dict)),
                     request_dict = Some request,
                     handler_instance = Some (cls, obj3),
                     self_after = self\<lparr>requests_handled := requests_handled self + 1\<rparr>,
                     calls = [CallStart, CallRun, CallStop response_dict]\<rparr>)))"

text \<open>
  Steps 1 to 3 of the \<open>try\<close> block, up to the injection of the application
  properties: either an exception, with \<open>request_dict\<close> as far as it is bound and the
  delegate, or the parsed request, the class, the new instance and the delegate.
\<close>

definition construct_instance ::
  "genv \<Rightarrow> delegate \<Rightarrow> string \<Rightarrow> string \<Rightarrow> string
     \<Rightarrow> exc \<times> json option \<times> delegate + json \<times> hclass \<times> handler_obj \<times> delegate" where
  "construct_instance env self python_class_name dg_request_json app_properties_json =
     (case g_loads env dg_request_json of
        Inl e \<Rightarrow> Inl (e, None, self)
      | Inr request \<Rightarrow>
          (case (if app_properties_json \<noteq> [] then g_loads env app_properties_json
                 else Inr (JObj [])) of
             Inl e \<Rightarrow> Inl (e, Some request, self)
           | Inr app_props \<Rightarrow>
               (case py_get request ''requestType'' (JStr ''UNKNOWN'') of
                  Inl e \<Rightarrow> Inl (e, Some request, self)
                | Inr request_type \<Rightarrow>
                    (case load_class env python_class_name self of
                       (Inl e, self1) \<Rightarrow> Inl (e, Some request, self1)
                     | (Inr handler_class, self1) \<Rightarrow>
                         (case m_new handler_class of
                            Inl e \<Rightarrow> Inl (e, Some request, self1)
                          | Inr obj \<Rightarrow>
                              Inr (request, handler_class,
                                   obj\<lparr>h_app_properties := app_props\<rparr>, self1))))))"

definition try_block :: "genv \<Rightarrow> delegate \<Rightarrow> string \<Rightarrow> string \<Rightarrow> string \<Rightarrow> attempt" where
  "try_block env self python_class_name dg_request_json app_properties_json =
     (case construct_instance env self python_class_name dg_request_json app_properties_json of
        Inl (e, request, self1) \<Rightarrow>
          \<lparr>outcome = Inl e, request_dict = request, handler_instance = None,
           self_after = self1, calls = []\<rparr>
      | Inr (request, handler_class, obj, self1) \<Rightarrow>
          run_lifecycle handler_class obj request self1)"

text \<open>
  The \<open>except Exception\<close> block.  \<open>'request_dict' in dir()\<close> holds when the variable
  is bound; an exception of \<open>request_dict.get\<close> is passed over.  \<open>stop\<close> is called when
  \<open>handler_instance is not None\<close>, and what it raises is only logged.
\<close>

definition error_response :: "genv \<Rightarrow> string \<Rightarrow> exc \<Rightarrow> json option \<Rightarrow> pydict" where
  "error_response env python_class_name e request =
     (let base = [(''status'', JStr ''ERROR''),
                  (''requestId'', JStr ''unknown''),
                  (''handlerType'', JStr python_class_name),
                  (''errorCode'', JStr (exc_kind e)),
                  (''errorMessage'', JStr (exc_msg e)),
                  (''stackTrace'', JStr (g_format_exc env e))]
      in case request of
           None \<Rightarrow> base
         | Some r \<Rightarrow>
             (case py_get r ''requestId'' (JStr ''unknown'') of
                Inl _ \<Rightarrow> base
              | Inr request_id \<Rightarrow> dict_set base ''requestId'' request_id))"

text \<open>
  In a \<open>dispatch\<close>, \<open>returned\<close> is the document whose \<open>json.dumps\<close> text goes back
  to the caller, and \<open>instance_after\<close> is the handler instance as the dispatch left it
  (\<open>None\<close> when none was constructed).  The error response holds strings and the
  \<open>requestId\<close> of the request that \<open>json.loads\<close> returned, so its \<open>json.dumps\<close>, the
  one call outside the \<open>try\<close>, has nothing to refuse.
\<close>

record dispatch =
  returned :: json
  delegate_after :: delegate
  instance_after :: "handler_obj option"
  lifecycle_calls :: "gcall list"

definition executeHandler :: "genv \<Rightarrow> delegate \<Rightarrow> string \<Rightarrow> string \<Rightarrow> string \<Rightarrow> dispatch" where
  "executeHandler env self python_class_name dg_request_json app_properties_json =
     (let a = try_block env self python_class_name dg_request_json app_properties_json in
      case outcome a of
        Inr response_dict \<Rightarrow>
          \<lparr>returned = response_dict, delegate_after = self_after a,
           instance_after = map_option snd (handler_instance a), lifecycle_calls = calls a\<rparr>
      | Inl e \<Rightarrow>
          (let self1 = (self_after a)\<lparr>errors := errors (self_after a) + 1\<rparr>;
               response = JObj (error_response env python_class_name e (request_dict a))
           in case handler_instance a of
                None \<Rightarrow>
                  \<lparr>returned = response, delegate_after = self1, instance_after = None,
                   lifecycle_calls = calls a\<rparr>
              | Some (cls, obj) \<Rightarrow>
                  \<lparr>returned = response, delegate_after = self1,
                   instance_after = Some (snd (m_stop cls response obj)),
                   lifecycle_calls = calls a @ [CallStop response]\<rparr>))"

text \<open>The number of \<open>stop\<close> calls and of \<open>cleanup\<close> calls in a log.\<close>

fun is_stop :: "gcall \<Rightarrow> bool" where
  "is_stop (CallStop _) = True"
| "is_stop _ = False"

definition stop_count :: "gcall list \<Rightarrow> nat" where
  "stop_count cs = length (filter is_stop cs)"

definition cleanup_count :: "wcall list \<Rightarrow> nat" where
  "cleanup_count cs = count_list cs CallCleanup"

section \<open>The handlers shipped with the gateway\<close>

text \<open>
  \<open>EchoPythonHandler\<close> inherits the whole lifecycle and implements \<open>compute\<close>.  What it
  reads from the interpreter and the process is the record \<open>runtime\<close>.
\<close>

record runtime =
  python_version :: string
  platform_name :: string
  env_worker_id :: string
  pid :: int
  clock_iso :: string

definition get_property :: "handler_obj \<Rightarrow> string \<Rightarrow> json \<Rightarrow> exc + json" where
  "get_property self key dflt =
     py_get (if truthy (h_app_properties self) then h_app_properties self else JObj []) key dflt"

definition EchoPythonHandler_compute :: "runtime \<Rightarrow> handler_obj \<Rightarrow> json \<Rightarrow> exc + json" where
  "EchoPythonHandler_compute rt self request =
     (case py_get request ''payload'' (JObj []) of
        Inl e \<Rightarrow> Inl e
      | Inr payload \<Rightarrow>
     (case py_get request ''requestId'' (JStr ''unknown'') of
        Inl e \<Rightarrow> Inl e
      | Inr request_id \<Rightarrow>
     (case py_get request ''correlationId'' JNull of
        Inl e \<Rightarrow> Inl e
      | Inr correlation_id \<Rightarrow>
     (case get_property self ''dgfacade.app-name'' (JStr ''DGFacade'') of
        Inl e \<Rightarrow> Inl e
      | Inr app_name \<Rightarrow>
     (case get_property self ''dgfacade.version'' (JStr ''unknown'') of
        Inl e \<Rightarrow> Inl e
      | Inr version \<Rightarrow>
          Inr (JObj [(''echo'', payload),
                     (''source'', JStr ''PYTHON_PY4J''),
                     (''pythonVersion'', JStr (python_version rt)),
                     (''platform'', JStr (platform_name rt)),
                     (''workerId'', JStr (env_worker_id rt)),
                     (''pid'', JInt (pid rt)),
                     (''timestamp'', JStr (clock_iso rt)),
                     (''requestId'', request_id),
                     (''correlationId'', correlation_id),
                     (''appName'', app_name),
                     (''version'', version)]))))))"

definition EchoPythonHandler :: "(exc \<Rightarrow> string) \<Rightarrow> rat \<Rightarrow> runtime \<Rightarrow> hclass" where
  "EchoPythonHandler tb elapsed rt =
     \<lparr>m_new = Inr DGHandler_init,
      m_start = DGHandler_start,
      m_execute = DGHandler_execute tb elapsed (EchoPythonHandler_compute rt) ''PYTHON_ECHO'',
      m_stop = DGHandler_stop\<rparr>"

text \<open>
  \<open>TransformPythonHandler.start\<close>: \<open>super().start(request)\<close>, then the check that the
  payload names an operation.  \<open>"operation" not in payload\<close> is a key test on a
  dictionary, an element test on a list, a substring test on a string, and a
  \<open>TypeError\<close> on a number, a boolean or \<open>None\<close>.
\<close>

fun has_substring :: "string \<Rightarrow> string \<Rightarrow> bool" where
  "has_substring needle [] = (needle = [])"
| "has_substring needle (c # cs) =
     (take (length needle) (c # cs) = needle \<or> has_substring needle cs)"

definition py_contains :: "string \<Rightarrow> json \<Rightarrow> exc + bool" where
  "py_contains key container = (case container of
       JObj d \<Rightarrow> Inr (dict_has d key)
     | JArr xs \<Rightarrow> Inr (JStr key \<in> set xs)
     | JStr s \<Rightarrow> Inr (has_substring key s)
     | _ \<Rightarrow> Inl (Exc ''TypeError''
         (''argument of type '' @ sq @ type_name container @ sq @ '' is not iterable'')))"

definition TransformPythonHandler_start :: "json \<Rightarrow> handler_obj \<Rightarrow> exc option \<times> handler_obj" where
  "TransformPythonHandler_start request self =
     (case DGHandler_start request self of
        (Some e, self1) \<Rightarrow> (Some e, self1)
      | (None, self1) \<Rightarrow>
          (case py_get request ''payload'' (JObj []) of
             Inl e \<Rightarrow> (Some e, self1)
           | Inr payload \<Rightarrow>
               (case py_contains ''operation'' payload of
                  Inl e \<Rightarrow> (Some e, self1)
                | Inr present \<Rightarrow>
                    if \<not> present then
                      (Some (Exc ''ValueError''
                         (''Missing '' @ sq @ ''operation'' @ sq @ '' in payload. Supported: ''
                          @ ''UPPERCASE, LOWERCASE, REVERSE, WORD_COUNT, SHA256, ''
                          @ ''WORD_FREQ, JSON_FLATTEN'')), self1)
                    else (None, self1))))"

section \<open>Concrete environments for the examples\<close>

text \<open>
  The examples below need values for what the model takes from outside the repository.
  \<open>sample_loads\<close> agrees with \<open>json.loads\<close> on the four texts the examples use; the
  sample byte codec agrees with \<open>json.dumps\<close> and \<open>json.loads\<close> on the empty
  dictionary.  \<open>str\<close> is not exercised by the examples.
\<close>

definition dq :: string where
  "dq = [CHR 0x22]"

definition request_text :: string where
  "request_text = ''{'' @ dq @ ''requestId'' @ dq @ '': '' @ dq @ ''r-1'' @ dq @ ''}''"

definition sample_loads :: "string \<Rightarrow> exc + json" where
  "sample_loads s =
     (if s = ''{}'' then Inr (JObj [])
      else if s = ''[]'' then Inr (JArr [])
      else if s = request_text then Inr (JObj [(''requestId'', JStr ''r-1'')])
      else Inl (Exc ''JSONDecodeError'' ''Expecting value: line 1 column 1 (char 0)''))"

definition sample_tb :: "exc \<Rightarrow> string" where
  "sample_tb e = ''Traceback (most recent call last): '' @ exc_kind e @ '': '' @ exc_msg e"

text \<open>
  A worker handler that keeps its configuration, answers with a map that has neither
  \<open>status\<close> nor \<open>data\<close>, and fails in \<open>cleanup\<close>.
\<close>

definition sample_handler :: "json wclass" where
  "sample_handler = \<lparr>
     w_construct = (\<lambda>config self. (None, if truthy config then config else JObj [])),
     w_execute = (\<lambda>request app_properties self. (Inr (JObj [(''echo'', request)]), self)),
     w_cleanup = (\<lambda>self. (Some (Exc ''RuntimeError'' ''cleanup failed''), self))\<rparr>"

definition sample_import :: "json \<Rightarrow> json \<Rightarrow> exc + json winstance" where
  "sample_import module_name class_name =
     (if module_name = JStr ''handlers.sample'' \<and> class_name = JStr ''SampleHandler''
      then Inr \<lparr>w_methods = sample_handler, w_self = JNull\<rparr>
      else if module_name = JStr ''handlers.sample'' \<and> class_name = JStr ''DGHandlerBase''
      then Inr \<lparr>w_methods = DGHandlerBase, w_self = JNull\<rparr>
      else Inl (Exc ''ModuleNotFoundError'' ''No module named nosuch''))"

definition sample_dumps_bytes :: "json \<Rightarrow> byte list" where
  "sample_dumps_bytes d = (if d = JObj [] then [123, 125] else [110, 117, 108, 108])"

definition sample_loads_bytes :: "byte list \<Rightarrow> exc + json" where
  "sample_loads_bytes bs =
     (if bs = [123, 125] then Inr (JObj [])
      else if bs = [110, 117, 108, 108] then Inr JNull
      else Inl (Exc ''JSONDecodeError'' ''Expecting value: line 1 column 1 (char 0)''))"

definition sample_wenv :: "json wenv" where
  "sample_wenv = \<lparr>
     json_loads = sample_loads,
     str_of = (\<lambda>v. ''?''),
     import_handler = sample_import,
     format_exc = sample_tb,
     utc_now = ''2026-01-01T00:00:00+00:00'',
     WORKER_ID = 0,
     APP_PROPERTIES = JObj [],
     dumps_bytes = sample_dumps_bytes,
     loads_bytes = sample_loads_bytes\<rparr>"

definition empty_worker :: "json worker" where
  "empty_worker = \<lparr>handler_cache = Map.empty, lifecycle = []\<rparr>"

definition fresh_conn :: "byte list \<Rightarrow> nat list \<Rightarrow> conn" where
  "fresh_conn bs cuts =
     \<lparr>inbound = bs, chunking = cuts, recv_calls = 0, sent = [], closed = False\<rparr>"

definition sample_runtime :: runtime where
  "sample_runtime = \<lparr>python_version = ''3.12.0'', platform_name = ''Linux'',
     env_worker_id = ''0'', pid = 4242, clock_iso = ''2026-01-01T00:00:00+00:00''\<rparr>"

definition sample_echo :: hclass where
  "sample_echo = EchoPythonHandler sample_tb 0 sample_runtime"

text \<open>
  Variations of the echo class: one with the start of the transform handler, one whose
  \<open>compute\<close> raises, one with that start and an overridden \<open>stop\<close> that raises, one
  whose overridden \<open>execute\<close> raises, and one whose \<open>compute\<close> returns a Python
  \<open>set\<close> in its result.
\<close>

definition sample_strict :: hclass where
  "sample_strict = sample_echo\<lparr>m_start := TransformPythonHandler_start\<rparr>"

definition sample_failing :: hclass where
  "sample_failing = sample_echo\<lparr>m_execute :=
     DGHandler_execute sample_tb 0
       (\<lambda>self request. Inl (Exc ''ValueError'' ''Unknown operation'')) ''PYTHON_TRANSFORM''\<rparr>"

definition sample_bad_stop :: hclass where
  "sample_bad_stop = sample_strict\<lparr>m_stop :=
     (\<lambda>response self. (Some (Exc ''RuntimeError'' ''stop failed''), self))\<rparr>"

definition sample_raising :: hclass where
  "sample_raising = sample_echo\<lparr>m_execute :=
     (\<lambda>self. (Inl (Exc ''RuntimeError'' ''execute failed''), self))\<rparr>"

definition sample_set_result :: hclass where
  "sample_set_result = sample_echo\<lparr>m_execute :=
     DGHandler_execute sample_tb 0
       (\<lambda>self request. Inr (JObj [(''tags'', JObject ''set'')])) ''PYTHON_TRANSFORM''\<rparr>"

definition sample_gimport :: "string \<Rightarrow> string \<Rightarrow> exc + hclass" where
  "sample_gimport module_path class_name =
     (if module_path = ''handlers.echo_handler'' \<and> class_name = ''EchoPythonHandler''
      then Inr sample_echo
      else if module_path = ''handlers.samples'' \<and> class_name = ''Strict''
      then Inr sample_strict
      else if module_path = ''handlers.samples'' \<and> class_name = ''Failing''
      then Inr sample_failing
      else if module_path = ''handlers.samples'' \<and> class_name = ''BadStop''
      then Inr sample_bad_stop
      else if module_path = ''handlers.samples'' \<and> class_name = ''Raising''
      then Inr sample_raising
      else if module_path = ''handlers.samples'' \<and> class_name = ''SetResult''
      then Inr sample_set_result
      else Inl (Exc ''ModuleNotFoundError'' ''No module named nosuch''))"

definition sample_genv :: genv where
  "sample_genv = \<lparr>g_loads = sample_loads, g_import = sample_gimport,
     g_format_exc = sample_tb\<rparr>"

definition fresh_delegate :: delegate where
  "fresh_delegate = \<lparr>class_cache = Map.empty, requests_handled = 0, errors = 0\<rparr>"

definition sample_fields :: pydict where
  "sample_fields =
     [(''command'', JStr ''execute''),
      (''handler_module'', JStr ''handlers.sample''),
      (''handler_class'', JStr ''SampleHandler''),
      (''request_json'', JStr request_text),
      (''config_json'', JStr ''{}'')]"

definition unknown_handler_fields :: pydict where
  "unknown_handler_fields =
     [(''command'', JStr ''execute''),
      (''handler_module'', JStr ''nosuch''),
      (''handler_class'', JStr ''Missing''),
      (''request_json'', JStr request_text),
      (''config_json'', JStr ''{}'')]"

text \<open>A field of a response document; \<open>JNull\<close> when it is absent.\<close>

definition response_field :: "json \<Rightarrow> string \<Rightarrow> json" where
  "response_field response k =
     (case response of JObj d \<Rightarrow> dict_get d k JNull | _ \<Rightarrow> JNull)"

definition unparsable_fields :: pydict where
  "unparsable_fields =
     [(''command'', JStr ''execute''),
      (''handler_module'', JStr ''handlers.sample''),
      (''handler_class'', JStr ''SampleHandler''),
      (''request_json'', JStr ''not json''),
      (''config_json'', JStr ''{}'')]"

section \<open>Dictionaries\<close>

lemma map_of_dict_set: "map_of (dict_set d k v) = (map_of d)(k \<mapsto> v)"
  by (induction d k v rule: dict_set.induct) (auto simp: fun_eq_iff)

lemma dict_has_dict_set: "dict_has (dict_set d k v) k' = (k' = k \<or> dict_has d k')"
  by (simp add: dict_has_def map_of_dict_set)

lemma dict_get_dict_set:
  "dict_get (dict_set d k v) k' dflt = (if k' = k then v else dict_get d k' dflt)"
  by (simp add: dict_get_def map_of_dict_set)

section \<open>The transform handler\<close>

subsection \<open>SHA-256 of the empty text\<close>

text \<open>
  The digest of the empty message is computed inside the logic.  Its single padded block
  is run through the sixty-four rounds in eight stages of eight; each stage lemma states
  the schedule window and the registers after the stage.
\<close>

lemma replicate_numeral: "replicate (numeral k) x = x # replicate (pred_numeral k) x"
  by (simp add: numeral_eq_Suc)

lemma pad_message_empty: "pad_message [] = 128 # replicate 63 0"
  by (simp add: pad_message_def bit_length_bytes_def replicate_numeral)

lemma blocks_of_padded_empty: "blocks_of (pad_message []) = [128 # replicate 63 0]"
  by (simp add: pad_message_empty blocks_of.simps)

lemma words_of_padded_empty:
  "words_of (128 # replicate 63 0) =
     [2147483648, 0, 0, 0, 0, 0, 0, 0,
      0, 0, 0, 0, 0, 0, 0, 0]"
  by (simp add: replicate_numeral be_word_def)

lemmas round_defs = schedule_round_def next_window_def round_step_def Let_def
  big_sigma0_def big_sigma1_def small_sigma0_def small_sigma1_def rotr_def Ch_def Maj_def

lemma rounds_stage_1:
  "foldl schedule_round
     ([2147483648, 0, 0, 0, 0, 0, 0, 0,
       0, 0, 0, 0, 0, 0, 0, 0],
      initial_hash)
     [1116352408, 1899447441, 3049323471, 3921009573, 961987163, 1508970993, 2453635748, 2870763221] =
   ([0, 0, 0, 0, 0, 0, 0, 0,
     2147483648, 0, 2117632, 0, 570427392, 0, 84448578, 2147483648],
    \<lparr>reg_a = 2060825014, reg_b = 4028650896, reg_c = 690895682, reg_d = 1130821424, reg_e = 1408847307, reg_f = 2196627567, reg_g = 1332035834, reg_h = 3889194014\<rparr>)"
  by (simp add: round_defs initial_hash_def)

lemma rounds_stage_2:
  "foldl schedule_round
     ([0, 0, 0, 0, 0, 0, 0, 0,
       2147483648, 0, 2117632, 0, 570427392, 0, 84448578, 2147483648],
      \<lparr>reg_a = 2060825014, reg_b = 4028650896, reg_c = 690895682, reg_d = 1130821424, reg_e = 1408847307, reg_f = 2196627567, reg_g = 1332035834, reg_h = 3889194014\<rparr>)
     [3624381080, 310598401, 607225278, 1426881987, 1925078388, 2162078206, 2614888103, 3248222580] =
   ([2147483648, 0, 2117632, 0, 570427392, 0, 84448578, 2147483648,
     1476919296, 4235264, 1451269, 1711282176, 3592562048, 337794312, 3594910044, 3374850048],
    \<lparr>reg_a = 3019933109, reg_b = 3096116699, reg_c = 1170215847, reg_d = 553833165, reg_e = 1555621987, reg_f = 483372089, reg_g = 725774998, reg_h = 3455974994\<rparr>)"
  by (simp add: round_defs)

lemma rounds_stage_3:
  "foldl schedule_round
     ([2147483648, 0, 2117632, 0, 570427392, 0, 84448578, 2147483648,
       1476919296, 4235264, 1451269, 1711282176, 3592562048, 337794312, 3594910044, 3374850048],
      \<lparr>reg_a = 3019933109, reg_b = 3096116699, reg_c = 1170215847, reg_d = 553833165, reg_e = 1555621987, reg_f = 483372089, reg_g = 725774998, reg_h = 3455974994\<rparr>)
     [3835390401, 4022224774, 264347078, 604807628, 770255983, 1249150122, 1555081692, 1996064986] =
   ([1476919296, 4235264, 1451269, 1711282176, 3592562048, 337794312, 3594910044, 3374850048,
     3287351444, 676112230, 109604294, 2742808854, 1904000662, 4274181962, 2813755136, 2165675682],
    \<lparr>reg_a = 2556161365, reg_b = 1078820948, reg_c = 2577845017, reg_d = 1976037592, reg_e = 741081741, reg_f = 2976200464, reg_g = 3263666206, reg_h = 966081741\<rparr>)"
  by (simp add: round_defs)

lemma rounds_stage_4:
  "foldl schedule_round
     ([1476919296, 4235264, 1451269, 1711282176, 3592562048, 337794312, 3594910044, 3374850048,
       3287351444, 676112230, 109604294, 2742808854, 1904000662, 4274181962, 2813755136, 2165675682],
      \<lparr>reg_a = 2556161365, reg_b = 1078820948, reg_c = 2577845017, reg_d = 1976037592, reg_e = 741081741, reg_f = 2976200464, reg_g = 3263666206, reg_h = 966081741\<rparr>)
     [2554220882, 2821834349, 2952996808, 3210313671, 3336571891, 3584528711, 113926993, 338241895] =
   ([3287351444, 676112230, 109604294, 2742808854, 1904000662, 4274181962, 2813755136, 2165675682,
     2561075048, 62000258, 1562224585, 2975250741, 3286092305, 614207615, 3297584367, 1575308336],
    \<lparr>reg_a = 300352095, reg_b = 2696613087, reg_c = 1926471693, reg_d = 1690082844, reg_e = 3151463532, reg_f = 1447716390, reg_g = 2957685293, reg_h = 2506713973\<rparr>)"
  by (simp add: round_defs)

lemma rounds_stage_5:
  "foldl schedule_round
     ([3287351444, 676112230, 109604294, 2742808854, 1904000662, 4274181962, 2813755136, 2165675682,
       2561075048, 62000258, 1562224585, 2975250741, 3286092305, 614207615, 3297584367, 1575308336],
      \<lparr>reg_a = 300352095, reg_b = 2696613087, reg_c = 1926471693, reg_d = 1690082844, reg_e = 3151463532, reg_f = 1447716390, reg_g = 2957685293, reg_h = 2506713973\<rparr>)
     [666307205, 773529912, 1294757372, 1396182291, 1695183700, 1986661051, 2177026350, 2456956037] =
   ([2561075048, 62000258, 1562224585, 2975250741, 3286092305, 614207615, 3297584367, 1575308336,
     3741240933, 748767245, 1008022316, 30329261, 369937616, 195877528, 907775968, 3526495142],
    \<lparr>reg_a = 1234768305, reg_b = 2656625711, reg_c = 1457773646, reg_d = 2694206301, reg_e = 1902882853, reg_f = 2242319396, reg_g = 3892832895, reg_h = 4206914285\<rparr>)"
  by (simp add: round_defs)

lemma rounds_stage_6:
  "foldl schedule_round
     ([2561075048, 62000258, 1562224585, 2975250741, 3286092305, 614207615, 3297584367, 1575308336,
       3741240933, 748767245, 1008022316, 30329261, 369937616, 195877528, 907775968, 3526495142],
      \<lparr>reg_a = 1234768305, reg_b = 2656625711, reg_c = 1457773646, reg_d = 2694206301, reg_e = 1902882853, reg_f = 2242319396, reg_g = 3892832895, reg_h = 4206914285\<rparr>)
     [2730485921, 2820302411, 3259730800, 3345764771, 3516065817, 3600352804, 4094571909, 275423344] =
   ([3741240933, 748767245, 1008022316, 30329261, 369937616, 195877528, 907775968, 3526495142,
     43741191, 1967544444, 133517113, 4161330627, 3704256008, 1581412744, 1153231965, 996066459],
    \<lparr>reg_a = 911881421, reg_b = 1419259244, reg_c = 855262251, reg_d = 2752082644, reg_e = 3417569515, reg_f = 2322236082, reg_g = 3531982457, reg_h = 2855016464\<rparr>)"
  by (simp add: round_defs)

lemma rounds_stage_7:
  "foldl schedule_round
     ([3741240933, 748767245, 1008022316, 30329261, 369937616, 195877528, 907775968, 3526495142,
       43741191, 1967544444, 133517113, 4161330627, 3704256008, 1581412744, 1153231965, 996066459],
      \<lparr>reg_a = 911881421, reg_b = 1419259244, reg_c = 855262251, reg_d = 2752082644, reg_e = 3417569515, reg_f = 2322236082, reg_g = 3531982457, reg_h = 2855016464\<rparr>)
     [430227734, 506948616, 659060556, 883997877, 958139571, 1322822218, 1537002063, 1747873779] =
   ([43741191, 1967544444, 133517113, 4161330627, 3704256008, 1581412744, 1153231965, 996066459,
     2378657164, 43534273, 2009316420, 2609564739, 634078299, 3041947233, 288713463, 1830996369],
    \<lparr>reg_a = 23298068, reg_b = 749689034, reg_c = 974034039, reg_d = 2981272720, reg_e = 2918796810, reg_f = 3850954136, reg_g = 4254700398, reg_h = 1134943992\<rparr>)"
  by (simp add: round_defs)

lemma rounds_stage_8:
  "foldl schedule_round
     ([43741191, 1967544444, 133517113, 4161330627, 3704256008, 1581412744, 1153231965, 996066459,
       2378657164, 43534273, 2009316420, 2609564739, 634078299, 3041947233, 288713463, 1830996369],
      \<lparr>reg_a = 23298068, reg_b = 749689034, reg_c = 974034039, reg_d = 2981272720, reg_e = 2918796810, reg_f = 3850954136, reg_g = 4254700398, reg_h = 1134943992\<rparr>)
     [1955562222, 2024104815, 2227730452, 2361852424, 2428436474, 2756734187, 3204031479, 3329325298] =
   ([2378657164, 43534273, 2009316420, 2609564739, 634078299, 3041947233, 288713463, 1830996369,
     2108832412, 1277881035, 2902781278, 3718698087, 73499588, 2836008653, 599194775, 3546702457],
    \<lparr>reg_a = 2040978907, reg_b = 3717492111, reg_c = 1586299222, reg_d = 4095722474, reg_e = 3600805733, reg_f = 3382061760, reg_g = 2232532848, reg_h = 477227836\<rparr>)"
  by (simp add: round_defs)

lemma round_constants_stages:
  "round_constants =
     [1116352408, 1899447441, 3049323471, 3921009573, 961987163, 1508970993, 2453635748, 2870763221] @
     [3624381080, 310598401, 607225278, 1426881987, 1925078388, 2162078206, 2614888103, 3248222580] @
     [3835390401, 4022224774, 264347078, 604807628, 770255983, 1249150122, 1555081692, 1996064986] @
     [2554220882, 2821834349, 2952996808, 3210313671, 3336571891, 3584528711, 113926993, 338241895] @
     [666307205, 773529912, 1294757372, 1396182291, 1695183700, 1986661051, 2177026350, 2456956037] @
     [2730485921, 2820302411, 3259730800, 3345764771, 3516065817, 3600352804, 4094571909, 275423344] @
     [430227734, 506948616, 659060556, 883997877, 958139571, 1322822218, 1537002063, 1747873779] @
     [1955562222, 2024104815, 2227730452, 2361852424, 2428436474, 2756734187, 3204031479, 3329325298]"
  by (simp add: round_constants_def)

lemma rounds_padded_empty:
  "foldl schedule_round
     ([2147483648, 0, 0, 0, 0, 0, 0, 0,
       0, 0, 0, 0, 0, 0, 0, 0],
      initial_hash) round_constants =
   ([2378657164, 43534273, 2009316420, 2609564739, 634078299, 3041947233, 288713463, 1830996369,
     2108832412, 1277881035, 2902781278, 3718698087, 73499588, 2836008653, 599194775, 3546702457],
    \<lparr>reg_a = 2040978907, reg_b = 3717492111, reg_c = 1586299222, reg_d = 4095722474, reg_e = 3600805733, reg_f = 3382061760, reg_g = 2232532848, reg_h = 477227836\<rparr>)"
  unfolding round_constants_stages foldl_append
    rounds_stage_1 rounds_stage_2 rounds_stage_3 rounds_stage_4
    rounds_stage_5 rounds_stage_6 rounds_stage_7 rounds_stage_8 ..

lemma compress_padded_empty:
  "compress initial_hash (128 # replicate 63 0) =
     \<lparr>reg_a = 3820012610, reg_b = 2566659092, reg_c = 2600203464, reg_d = 2574235940, reg_e = 665731556, reg_f = 1687917388, reg_g = 2761267483, reg_h = 2018687061\<rparr>"
  by (simp add: compress_def words_of_padded_empty rounds_padded_empty)
     (simp add: initial_hash_def)

lemma sha256_empty_digest:
  "hexdigest (hashlib_sha256 []) =
     ''e3b0c44298fc1c149afbf4c8996fb92427ae41e4649b934ca495991b7852b855''"
  by (simp add: hashlib_sha256_def blocks_of_padded_empty compress_padded_empty
        hexdigest_def hex_word_def hex_digit_def)

subsection \<open>SHA-256 of the euro sign\<close>

text \<open>
  The same computation for a text with one code point outside ASCII, \<open>U+20AC\<close>, whose
  encoding has the three bytes \<open>e2 82 ac\<close>.
\<close>

lemma pad_message_euro: "pad_message [226, 130, 172] = 226 # 130 # 172 # 128 # replicate 59 0 @ [24]"
  by (simp add: pad_message_def bit_length_bytes_def replicate_numeral)

lemma blocks_of_padded_euro:
  "blocks_of (pad_message [226, 130, 172]) = [226 # 130 # 172 # 128 # replicate 59 0 @ [24]]"
  by (simp add: pad_message_euro blocks_of.simps)

lemma words_of_padded_euro:
  "words_of (226 # 130 # 172 # 128 # replicate 59 0 @ [24]) =
     [3800214656, 0, 0, 0, 0, 0, 0, 0,
      0, 0, 0, 0, 0, 0, 0, 24]"
  by (simp add: replicate_numeral be_word_def)

lemma euro_rounds_stage_1:
  "foldl schedule_round
     ([3800214656, 0, 0, 0, 0, 0, 0, 0,
       0, 0, 0, 0, 0, 0, 0, 24],
      initial_hash)
     [1116352408, 1899447441, 3049323471, 3921009573, 961987163, 1508970993, 2453635748, 2870763221] =
   ([0, 0, 0, 0, 0, 0, 0, 24,
     3800214656, 983040, 65588666, 1610613702, 2137701306, 25426944, 179677966, 1677921422],
    \<lparr>reg_a = 898199289, reg_b = 581189605, reg_c = 3809492927, reg_d = 3393905889, reg_e = 3264019114, reg_f = 421212500, reg_g = 2832237216, reg_h = 179765578\<rparr>)"
  by (simp add: round_defs initial_hash_def)

lemma euro_rounds_stage_2:
  "foldl schedule_round
     ([0, 0, 0, 0, 0, 0, 0, 24,
       3800214656, 983040, 65588666, 1610613702, 2137701306, 25426944, 179677966, 1677921422],
      \<lparr>reg_a = 898199289, reg_b = 581189605, reg_c = 3809492927, reg_d = 3393905889, reg_e = 3264019114, reg_f = 421212500, reg_g = 2832237216, reg_h = 179765578\<rparr>)
     [3624381080, 310598401, 607225278, 1426881987, 1925078388, 2162078206, 2614888103, 3248222580] =
   ([3800214656, 983040, 65588666, 1610613702, 2137701306, 25426944, 179677966, 1677921422,
     1626564966, 3954756604, 965198979, 4230333011, 476288514, 1678914548, 1305436649, 2001112046],
    \<lparr>reg_a = 3098845554, reg_b = 3677340988, reg_c = 562264573, reg_d = 1337091062, reg_e = 4051634099, reg_f = 265037931, reg_g = 1032364623, reg_h = 1700936377\<rparr>)"
  by (simp add: round_defs)

lemma euro_rounds_stage_3:
  "foldl schedule_round
     ([3800214656, 983040, 65588666, 1610613702, 2137701306, 25426944, 179677966, 1677921422,
       1626564966, 3954756604, 965198979, 4230333011, 476288514, 1678914548, 1305436649, 2001112046],
      \<lparr>reg_a = 3098845554, reg_b = 3677340988, reg_c = 562264573, reg_d = 1337091062, reg_e = 4051634099, reg_f = 265037931, reg_g = 1032364623, reg_h = 1700936377\<rparr>)
     [3835390401, 4022224774, 264347078, 604807628, 770255983, 1249150122, 1555081692, 1996064986] =
   ([1626564966, 3954756604, 965198979, 4230333011, 476288514, 1678914548, 1305436649, 2001112046,
     3944248069, 356659778, 3088627583, 2982989863, 808359144, 3104774254, 3998042939, 3635829685],
    \<lparr>reg_a = 1748018231, reg_b = 2263829278, reg_c = 805734069, reg_d = 1618543924, reg_e = 3347854997, reg_f = 2547118137, reg_g = 1950345057, reg_h = 1030464355\<rparr>)"
  by (simp add: round_defs)

lemma euro_rounds_stage_4:
  "foldl schedule_round
     ([1626564966, 3954756604, 965198979, 4230333011, 476288514, 1678914548, 1305436649, 2001112046,
       3944248069, 356659778, 3088627583, 2982989863, 808359144, 3104774254, 3998042939, 3635829685],
      \<lparr>reg_a = 1748018231, reg_b = 2263829278, reg_c = 805734069, reg_d = 1618543924, reg_e = 3347854997, reg_f = 2547118137, reg_g = 1950345057, reg_h = 1030464355\<rparr>)
     [2554220882, 2821834349, 2952996808, 3210313671, 3336571891, 3584528711, 113926993, 338241895] =
   ([3944248069, 356659778, 3088627583, 2982989863, 808359144, 3104774254, 3998042939, 3635829685,
     1498810219, 2060400590, 2005611377, 2340998178, 1039507845, 3580860226, 4236297093, 344802200],
    \<lparr>reg_a = 4106127043, reg_b = 1357851444, reg_c = 4054233158, reg_d = 398649778, reg_e = 3195236098, reg_f = 3475324467, reg_g = 1101646844, reg_h = 899443959\<rparr>)"
  by (simp add: round_defs)

lemma euro_rounds_stage_5:
  "foldl schedule_round
     ([3944248069, 356659778, 3088627583, 2982989863, 808359144, 3104774254, 3998042939, 3635829685,
       1498810219, 2060400590, 2005611377, 2340998178, 1039507845, 3580860226, 4236297093, 344802200],
      \<lparr>reg_a = 4106127043, reg_b = 1357851444, reg_c = 4054233158, reg_d = 398649778, reg_e = 3195236098, reg_f = 3475324467, reg_g = 1101646844, reg_h = 899443959\<rparr>)
     [666307205, 773529912, 1294757372, 1396182291, 1695183700, 1986661051, 2177026350, 2456956037] =
   ([1498810219, 2060400590, 2005611377, 2340998178, 1039507845, 3580860226, 4236297093, 344802200,
     3917960239, 1546934977, 4053654430, 156335605, 1751597363, 2142377522, 835396014, 1749092164],
    \<lparr>reg_a = 1266080438, reg_b = 4220986640, reg_c = 2178514755, reg_d = 2875620843, reg_e = 870660136, reg_f = 2628673262, reg_g = 1098650062, reg_h = 3891805789\<rparr>)"
  by (simp add: round_defs)

lemma euro_rounds_stage_6:
  "foldl schedule_round
     ([1498810219, 2060400590, 2005611377, 2340998178, 1039507845, 3580860226, 4236297093, 344802200,
       3917960239, 1546934977, 4053654430, 156335605, 1751597363, 2142377522, 835396014, 1749092164],
      \<lparr>reg_a = 1266080438, reg_b = 4220986640, reg_c = 2178514755, reg_d = 2875620843, reg_e = 870660136, reg_f = 2628673262, reg_g = 1098650062, reg_h = 3891805789\<rparr>)
     [2730485921, 2820302411, 3259730800, 3345764771, 3516065817, 3600352804, 4094571909, 275423344] =
   ([3917960239, 1546934977, 4053654430, 156335605, 1751597363, 2142377522, 835396014, 1749092164,
     148436069, 813689535, 1292332974, 1637383981, 2461073228, 1546558119, 663484881, 1398711421],
    \<lparr>reg_a = 3368528947, reg_b = 389260745, reg_c = 1617546710, reg_d = 2532466344, reg_e = 3510641021, reg_f = 3697529046, reg_g = 3615419027, reg_h = 2567224345\<rparr>)"
  by (simp add: round_defs)

lemma euro_rounds_stage_7:
  "foldl schedule_round
     ([3917960239, 1546934977, 4053654430, 156335605, 1751597363, 2142377522, 835396014, 1749092164,
       148436069, 813689535, 1292332974, 1637383981, 2461073228, 1546558119, 663484881, 1398711421],
      \<lparr>reg_a = 3368528947, reg_b = 389260745, reg_c = 1617546710, reg_d = 2532466344, reg_e = 3510641021, reg_f = 3697529046, reg_g = 3615419027, reg_h = 2567224345\<rparr>)
     [430227734, 506948616, 659060556, 883997877, 958139571, 1322822218, 1537002063, 1747873779] =
   ([148436069, 813689535, 1292332974, 1637383981, 2461073228, 1546558119, 663484881, 1398711421,
     1030834584, 2232998783, 2506911520, 3464818199, 1835833312, 610946480, 575332191, 187517529],
    \<lparr>reg_a = 1834854873, reg_b = 1571477506, reg_c = 546958321, reg_d = 434808265, reg_e = 761365657, reg_f = 2998293194, reg_g = 4184323498, reg_h = 554657218\<rparr>)"
  by (simp add: round_defs)

lemma euro_rounds_stage_8:
  "foldl schedule_round
     ([148436069, 813689535, 1292332974, 1637383981, 2461073228, 1546558119, 663484881, 1398711421,
       1030834584, 2232998783, 2506911520, 3464818199, 1835833312, 610946480, 575332191, 187517529],
      \<lparr>reg_a = 1834854873, reg_b = 1571477506, reg_c = 546958321, reg_d = 434808265, reg_e = 761365657, reg_f = 2998293194, reg_g = 4184323498, reg_h = 554657218\<rparr>)
     [1955562222, 2024104815, 2227730452, 2361852424, 2428436474, 2756734187, 3204031479, 3329325298] =
   ([1030834584, 2232998783, 2506911520, 3464818199, 1835833312, 610946480, 575332191, 187517529,
     1157596764, 1629698539, 2562480707, 2138441283, 1090467525, 2604247301, 171292903, 3751125094],
    \<lparr>reg_a = 1522707078, reg_b = 2176795304, reg_c = 244954079, reg_d = 2605126975, reg_e = 3002403250, reg_f = 816769230, reg_g = 1684914661, reg_h = 2816425988\<rparr>)"
  by (simp add: round_defs)

lemma rounds_padded_euro:
  "foldl schedule_round
     ([3800214656, 0, 0, 0, 0, 0, 0, 0,
       0, 0, 0, 0, 0, 0, 0, 24],
      initial_hash) round_constants =
   ([1030834584, 2232998783, 2506911520, 3464818199, 1835833312, 610946480, 575332191, 187517529,
     1157596764, 1629698539, 2562480707, 2138441283, 1090467525, 2604247301, 171292903, 3751125094],
    \<lparr>reg_a = 1522707078, reg_b = 2176795304, reg_c = 244954079, reg_d = 2605126975, reg_e = 3002403250, reg_f = 816769230, reg_g = 1684914661, reg_h = 2816425988\<rparr>)"
  unfolding round_constants_stages foldl_append
    euro_rounds_stage_1 euro_rounds_stage_2 euro_rounds_stage_3 euro_rounds_stage_4
    euro_rounds_stage_5 euro_rounds_stage_6 euro_rounds_stage_7 euro_rounds_stage_8 ..

lemma compress_padded_euro:
  "compress initial_hash (226 # 130 # 172 # 128 # replicate 59 0 @ [24]) =
     \<lparr>reg_a = 3301740781, reg_b = 1025962285, reg_c = 1258858321, reg_d = 1083640441, reg_e = 67329073, reg_f = 3417592154, reg_g = 2213649296, reg_h = 62917917\<rparr>"
  unfolding compress_def words_of_padded_euro rounds_padded_euro
  by (simp add: initial_hash_def)

lemma sha256_euro_digest:
  "hexdigest (hashlib_sha256 [226, 130, 172]) =
     ''c4cc90ed3d26f12d4b08a75140970a7904035c31cbb4515a83f19b9003c00d1d''"
  by (simp add: hashlib_sha256_def blocks_of_padded_euro compress_padded_euro
        hexdigest_def hex_word_def hex_digit_def)

subsection \<open>The digest as text\<close>

lemma nibble_bound:
  fixes x :: u32
  shows "unat (x AND 15) < 16"
proof -
  have "x AND 15 \<le> 15" by (rule word_and_le1)
  then have "unat (x AND 15) \<le> unat (15 :: u32)" by (simp only: word_le_nat_alt)
  then show ?thesis by simp
qed

lemma hex_digit_is_hex: "hex_digit (x AND 15) \<in> set ''0123456789abcdef''"
proof -
  have "unat (x AND 15) < length ''0123456789abcdef''"
    using nibble_bound [of x] by simp
  then show ?thesis
    unfolding hex_digit_def by (rule nth_mem)
qed

lemma length_hex_word: "length (hex_word w) = 8"
  by (simp add: hex_word_def)

lemma set_hex_word: "set (hex_word w) \<subseteq> set ''0123456789abcdef''"
  unfolding hex_word_def set_map by (rule image_subsetI) (rule hex_digit_is_hex)

lemma length_hexdigest: "length (hexdigest s) = 64"
  by (simp add: hexdigest_def length_hex_word)

lemma set_concat_map_subset:
  "(\<And>x. set (f x) \<subseteq> S) \<Longrightarrow> set (concat (map f xs)) \<subseteq> S"
  by (induction xs) auto

lemma set_hexdigest: "set (hexdigest s) \<subseteq> set ''0123456789abcdef''"
  unfolding hexdigest_def by (rule set_concat_map_subset) (rule set_hex_word)

subsection \<open>The encoding of the text\<close>

lemma utf8_encode_sample:
  "utf8_encode [0x61, 0x10348, 0x20AC, 0xE9, 0x7FF, 0x800, 0xFFFF, 0x10000, 0x10FFFF] =
     Inr [0x61, 0xF0, 0x90, 0x8D, 0x88, 0xE2, 0x82, 0xAC, 0xC3, 0xA9, 0xDF, 0xBF,
          0xE0, 0xA0, 0x80, 0xEF, 0xBF, 0xBF, 0xF0, 0x90, 0x80, 0x80, 0xF4, 0x8F, 0xBF, 0xBF]"
  by (simp add: utf8_encode_def utf8_char_def is_surrogate_def)

lemma utf8_encode_lone_surrogate:
  "utf8_encode [0x61, 0xD800] =
     Inl (Exc ''UnicodeEncodeError''
       (sq @ ''utf-8'' @ sq @ '' codec can'' @ sq @ ''t encode character '' @ sq @ backslash
        @ ''ud800'' @ sq @ '' in position 1: surrogates not allowed''))"
  by (simp add: utf8_encode_def surrogates_not_allowed_def is_surrogate_def hex4_def
        dec_str.simps Let_def)

lemma utf8_encode_surrogate_run:
  "utf8_encode [0x61, 0x62, 0xD800, 0xDC00, 0xDFFF, 0x63, 0xD800] =
     Inl (Exc ''UnicodeEncodeError''
       (sq @ ''utf-8'' @ sq @ '' codec can'' @ sq
        @ ''t encode characters in position 2-4: surrogates not allowed''))"
  by (simp add: utf8_encode_def surrogates_not_allowed_def is_surrogate_def hex4_def
        dec_str.simps Let_def)

lemma utf8_encode_total:
  "utf8_encode s =
     (if list_all (\<lambda>c. \<not> is_surrogate c) s then Inr (concat (map utf8_char s))
      else Inl (surrogates_not_allowed s
                  (length (takeWhile (\<lambda>c. \<not> is_surrogate c) s))))"
proof -
  have "(length (takeWhile (\<lambda>c. \<not> is_surrogate c) s) < length s)
        = (\<not> list_all (\<lambda>c. \<not> is_surrogate c) s)"
    by (induction s) auto
  then show ?thesis by (simp add: utf8_encode_def Let_def)
qed

text \<open>
  The value that the claim gives for the empty text has 63 characters: the last digit of
  the digest is missing from it.  The code returns the 64 characters of SHA-256.
\<close>

theorem C3_counterexample_empty_text_digest:
  "sha256_op [] =
     Inr [(''hash'', JStr ''e3b0c44298fc1c149afbf4c8996fb92427ae41e4649b934ca495991b7852b855''),
          (''algorithm'', JStr ''SHA-256''), (''inputLength'', JInt 0)]
   \<and> sha256_op [] \<noteq>
     Inr [(''hash'', JStr ''e3b0c44298fc1c149afbf4c8996fb92427ae41e4649b934ca495991b7852b85''),
          (''algorithm'', JStr ''SHA-256''), (''inputLength'', JInt 0)]"
  by (simp add: sha256_op_def utf8_encode_def sha256_empty_digest)

text \<open>
  C3, with the digest of the empty text corrected and the texts that UTF-8 cannot encode
  set apart.  For every text without a surrogate code point the SHA256 operation returns
  a result whose hash is a function of the text alone (the hex digest of SHA-256 of its
  UTF-8 encoding), has 64 characters, all of them lower-case hexadecimal digits, and
  whose \<open>inputLength\<close> is the number of code points.  For every text that holds a
  surrogate, \<open>text.encode("utf-8")\<close> raises \<open>UnicodeEncodeError\<close> and the operation
  returns no digest.  For the empty text the hash is \<open>e3b0c442 98fc1c14 9afbf4c8
  996fb924 27ae41e4 649b934c a495991b 7852b855\<close>.
\<close>

theorem C3_sha256_digest:
  "(list_all (\<lambda>c. \<not> is_surrogate c) s \<longrightarrow>
      (\<exists>digest. sha256_op s =
           Inr [(''hash'', JStr digest), (''algorithm'', JStr ''SHA-256''),
                (''inputLength'', JInt (int (length s)))]
         \<and> digest = hexdigest (hashlib_sha256 (concat (map utf8_char s)))
         \<and> length digest = 64
         \<and> set digest \<subseteq> set ''0123456789abcdef''))
   \<and> (\<not> list_all (\<lambda>c. \<not> is_surrogate c) s \<longrightarrow>
      (\<exists>msg. sha256_op s = Inl (Exc ''UnicodeEncodeError'' msg)))
   \<and> sha256_op [] =
       Inr [(''hash'', JStr ''e3b0c44298fc1c149afbf4c8996fb92427ae41e4649b934ca495991b7852b855''),
            (''algorithm'', JStr ''SHA-256''), (''inputLength'', JInt 0)]"
  using length_hexdigest [of "hashlib_sha256 (concat (map utf8_char s))"]
    set_hexdigest [of "hashlib_sha256 (concat (map utf8_char s))"]
  by (simp add: sha256_op_def utf8_encode_total surrogates_not_allowed_def Let_def
        sha256_empty_digest del: set_simps)

text \<open>
  The theorem at the text \<open>U+20AC\<close>, one code point and three bytes, whose digest is
  computed above, and at a text with a lone surrogate.
\<close>

theorem C3_sha256_digest_witness:
  "sha256_op [0x20AC] =
     Inr [(''hash'', JStr ''c4cc90ed3d26f12d4b08a75140970a7904035c31cbb4515a83f19b9003c00d1d''),
          (''algorithm'', JStr ''SHA-256''), (''inputLength'', JInt 1)]
   \<and> (\<exists>msg. sha256_op [0x61, 0xD800] = Inl (Exc ''UnicodeEncodeError'' msg))"
  using C3_sha256_digest [of "[0x20AC]"] C3_sha256_digest [of "[0x61, 0xD800]"]
  by (simp add: is_surrogate_def utf8_char_def sha256_euro_digest del: set_simps)

subsection \<open>Flattening\<close>

text \<open>
  C4.  For the nested input \<open>{"a": {"b": 1}}\<close>, which has the single leaf \<open>a.b\<close>,
  JSON\_FLATTEN does not return the entry \<open>a.b\<close> with \<open>keyCount\<close> 1: the recursive call
  returns its wrapper dictionary, the caller merges that wrapper into \<open>items\<close>, and the
  output has the two entries \<open>flattened\<close> and \<open>keyCount\<close>, with \<open>keyCount\<close> 2.
\<close>

theorem C4_json_flatten_merges_wrapper:
  "json_flatten [(''a'', JObj [(''b'', JInt 1)])] '''' =
     [(''flattened'', JObj [(''flattened'', JObj [(''a.b'', JInt 1)]), (''keyCount'', JInt 1)]),
      (''keyCount'', JInt 2)]"
  by (simp add: json_flatten_def flatten_result_def join_key_def)

section \<open>The examples, evaluated\<close>

lemma sample_parse:
  "parse_inputs sample_wenv (JStr request_text) (JStr ''{}'') =
     Inr (JObj [(''requestId'', JStr ''r-1'')], JObj [])"
  by (simp add: parse_inputs_def py_json_loads_def sample_wenv_def sample_loads_def
        request_text_def dq_def)

lemma sample_resolution:
  "get_handler_instance sample_wenv (JStr ''handlers.sample'') (JStr ''SampleHandler'')
     empty_worker =
   (Inr (''handlers.sample.SampleHandler'', \<lparr>w_methods = sample_handler, w_self = JNull\<rparr>),
    empty_worker\<lparr>handler_cache :=
      [''handlers.sample.SampleHandler'' \<mapsto> \<lparr>w_methods = sample_handler, w_self = JNull\<rparr>]\<rparr>)"
  by (simp add: get_handler_instance_def fmt_def sample_wenv_def sample_import_def
        empty_worker_def Let_def)

lemma unknown_resolution:
  "get_handler_instance sample_wenv (JStr ''nosuch'') (JStr ''Missing'') empty_worker =
   (Inl (Exc ''ImportError''
      ''Cannot load handler nosuch.Missing: No module named nosuch''), empty_worker)"
  by (simp add: get_handler_instance_def fmt_def sample_wenv_def sample_import_def
        empty_worker_def Let_def)

lemma sample_fields_parse:
  "parse_inputs sample_wenv (dict_get sample_fields ''request_json'' (JStr ''{}''))
       (dict_get sample_fields ''config_json'' (JStr ''{}'')) =
       Inr (JObj [(''requestId'', JStr ''r-1'')], JObj [])"
  by (simp add: sample_fields_def dict_get_def sample_parse)

lemma sample_fields_resolution:
  "get_handler_instance sample_wenv (dict_get sample_fields ''handler_module'' (JStr ''''))
       (dict_get sample_fields ''handler_class'' (JStr '''')) empty_worker =
     (Inr (''handlers.sample.SampleHandler'', \<lparr>w_methods = sample_handler, w_self = JNull\<rparr>),
      empty_worker\<lparr>handler_cache :=
        [''handlers.sample.SampleHandler'' \<mapsto> \<lparr>w_methods = sample_handler, w_self = JNull\<rparr>]\<rparr>)"
  by (simp add: sample_fields_def dict_get_def sample_resolution)

lemma unknown_fields_parse:
  "parse_inputs sample_wenv
       (dict_get unknown_handler_fields ''request_json'' (JStr ''{}''))
       (dict_get unknown_handler_fields ''config_json'' (JStr ''{}'')) =
       Inr (JObj [(''requestId'', JStr ''r-1'')], JObj [])"
  by (simp add: unknown_handler_fields_def dict_get_def sample_parse)

lemma unknown_fields_resolution:
  "get_handler_instance sample_wenv
       (dict_get unknown_handler_fields ''handler_module'' (JStr ''''))
       (dict_get unknown_handler_fields ''handler_class'' (JStr '''')) empty_worker =
     (Inl (Exc ''ImportError''
        ''Cannot load handler nosuch.Missing: No module named nosuch''), empty_worker)"
  by (simp add: unknown_handler_fields_def dict_get_def unknown_resolution)

lemma sample_request_parses:
  "g_loads sample_genv request_text = Inr (JObj [(''requestId'', JStr ''r-1'')])"
  by (simp add: sample_genv_def sample_loads_def request_text_def dq_def)

lemma not_json_rejected:
  "g_loads sample_genv ''not json'' =
     Inl (Exc ''JSONDecodeError'' ''Expecting value: line 1 column 1 (char 0)'')"
  by (simp add: sample_genv_def sample_loads_def request_text_def dq_def)

lemma rsplit_samples:
  "rsplit_dot ''handlers.samples.BadStop'' = [''handlers.samples'', ''BadStop'']"
  "rsplit_dot ''handlers.samples.Raising'' = [''handlers.samples'', ''Raising'']"
  "rsplit_dot ''handlers.samples.Strict'' = [''handlers.samples'', ''Strict'']"
  "rsplit_dot ''handlers.samples.Failing'' = [''handlers.samples'', ''Failing'']"
  "rsplit_dot ''handlers.samples.SetResult'' = [''handlers.samples'', ''SetResult'']"
  "rsplit_dot ''handlers.echo_handler.EchoPythonHandler'' =
     [''handlers.echo_handler'', ''EchoPythonHandler'']"
  "rsplit_dot ''nosuch.Missing'' = [''nosuch'', ''Missing'']"
  by (simp_all add: rsplit_dot_def)

lemma sample_classes_new:
  "m_new sample_echo = Inr DGHandler_init"
  "m_new sample_strict = Inr DGHandler_init"
  "m_new sample_failing = Inr DGHandler_init"
  "m_new sample_bad_stop = Inr DGHandler_init"
  "m_new sample_raising = Inr DGHandler_init"
  "m_new sample_set_result = Inr DGHandler_init"
  by (simp_all add: sample_echo_def sample_strict_def sample_failing_def sample_bad_stop_def
        sample_raising_def sample_set_result_def EchoPythonHandler_def)

lemma construct_samples:
  "construct_instance sample_genv fresh_delegate ''nosuch.Missing'' request_text '''' =
     Inl (Exc ''ImportError''
            (''Cannot find module '' @ sq @ ''nosuch'' @ sq @ '': No module named nosuch''
             @ ''. Check PYTHONPATH includes the handler directory.''),
          Some (JObj [(''requestId'', JStr ''r-1'')]), fresh_delegate)"
  "construct_instance sample_genv fresh_delegate ''handlers.samples.BadStop'' request_text '''' =
     Inr (JObj [(''requestId'', JStr ''r-1'')], sample_bad_stop,
          DGHandler_init\<lparr>h_app_properties := JObj []\<rparr>,
          fresh_delegate\<lparr>class_cache := [''handlers.samples.BadStop'' \<mapsto> sample_bad_stop]\<rparr>)"
  "construct_instance sample_genv fresh_delegate ''handlers.samples.Raising'' request_text '''' =
     Inr (JObj [(''requestId'', JStr ''r-1'')], sample_raising,
          DGHandler_init\<lparr>h_app_properties := JObj []\<rparr>,
          fresh_delegate\<lparr>class_cache := [''handlers.samples.Raising'' \<mapsto> sample_raising]\<rparr>)"
  "construct_instance sample_genv fresh_delegate ''handlers.samples.Failing'' request_text '''' =
     Inr (JObj [(''requestId'', JStr ''r-1'')], sample_failing,
          DGHandler_init\<lparr>h_app_properties := JObj []\<rparr>,
          fresh_delegate\<lparr>class_cache := [''handlers.samples.Failing'' \<mapsto> sample_failing]\<rparr>)"
  "construct_instance sample_genv fresh_delegate ''handlers.echo_handler.EchoPythonHandler''
       request_text '''' =
     Inr (JObj [(''requestId'', JStr ''r-1'')], sample_echo,
          DGHandler_init\<lparr>h_app_properties := JObj []\<rparr>,
          fresh_delegate\<lparr>class_cache :=
            [''handlers.echo_handler.EchoPythonHandler'' \<mapsto> sample_echo]\<rparr>)"
  "construct_instance sample_genv fresh_delegate ''handlers.samples.Strict'' request_text '''' =
     Inr (JObj [(''requestId'', JStr ''r-1'')], sample_strict,
          DGHandler_init\<lparr>h_app_properties := JObj []\<rparr>,
          fresh_delegate\<lparr>class_cache := [''handlers.samples.Strict'' \<mapsto> sample_strict]\<rparr>)"
  "construct_instance sample_genv fresh_delegate ''handlers.samples.SetResult'' request_text '''' =
     Inr (JObj [(''requestId'', JStr ''r-1'')], sample_set_result,
          DGHandler_init\<lparr>h_app_properties := JObj []\<rparr>,
          fresh_delegate\<lparr>class_cache :=
            [''handlers.samples.SetResult'' \<mapsto> sample_set_result]\<rparr>)"
  by (simp_all add: construct_instance_def sample_request_parses py_get_def load_class_def
        rsplit_samples fresh_delegate_def sample_classes_new,
      simp_all add: sample_genv_def sample_gimport_def sample_classes_new)

lemma sample_start_rejects:
  "TransformPythonHandler_start (JObj [(''requestId'', JStr ''r-1'')])
     (DGHandler_init\<lparr>h_app_properties := JObj []\<rparr>) =
   (Some (Exc ''ValueError''
      (''Missing '' @ sq @ ''operation'' @ sq @ '' in payload. Supported: ''
       @ ''UPPERCASE, LOWERCASE, REVERSE, WORD_COUNT, SHA256, ''
       @ ''WORD_FREQ, JSON_FLATTEN'')),
    \<lparr>h_status = READY, h_request = JObj [(''requestId'', JStr ''r-1'')],
     h_app_properties = JObj []\<rparr>)"
  by (simp add: TransformPythonHandler_start_def DGHandler_start_def DGHandler_init_def
        py_get_def dict_get_def py_contains_def dict_has_def Let_def)

lemma sample_echo_response:
  "DGHandler_execute sample_tb 0 (EchoPythonHandler_compute sample_runtime) ''PYTHON_ECHO''
     \<lparr>h_status = READY, h_request = JObj [(''requestId'', JStr ''r-1'')],
      h_app_properties = JObj []\<rparr> =
   (Inr (JObj [(''status'', JStr ''SUCCESS''),
               (''requestId'', JStr ''r-1''),
               (''handlerType'', JStr ''PYTHON_ECHO''),
               (''result'', JObj [(''echo'', JObj []),
                                  (''source'', JStr ''PYTHON_PY4J''),
                                  (''pythonVersion'', JStr ''3.12.0''),
                                  (''platform'', JStr ''Linux''),
                                  (''workerId'', JStr ''0''),
                                  (''pid'', JInt 4242),
                                  (''timestamp'', JStr ''2026-01-01T00:00:00+00:00''),
                                  (''requestId'', JStr ''r-1''),
                                  (''correlationId'', JNull),
                                  (''appName'', JStr ''DGFacade''),
                                  (''version'', JStr ''unknown'')]),
               (''executionTimeMs'', JFloat 0)]),
    \<lparr>h_status = STOPPED, h_request = JObj [(''requestId'', JStr ''r-1'')],
     h_app_properties = JObj []\<rparr>)"
  by (simp add: DGHandler_execute_def EchoPythonHandler_compute_def get_property_def
        py_get_def dict_get_def truthy_def sample_runtime_def Let_def)

lemma load_sample_failing:
  "load_class sample_genv ''handlers.samples.Failing'' fresh_delegate =
     (Inr sample_failing,
      fresh_delegate\<lparr>class_cache := [''handlers.samples.Failing'' \<mapsto> sample_failing]\<rparr>)"
  by (simp add: load_class_def rsplit_samples fresh_delegate_def)
     (simp add: sample_genv_def sample_gimport_def)

lemma sample_failing_methods:
  "m_start sample_failing = DGHandler_start"
  "m_execute sample_failing =
     DGHandler_execute sample_tb 0
       (\<lambda>self request. Inl (Exc ''ValueError'' ''Unknown operation'')) ''PYTHON_TRANSFORM''"
  "m_stop sample_failing = DGHandler_stop"
  by (simp_all add: sample_failing_def sample_echo_def EchoPythonHandler_def)

lemma sample_failing_run:
  "m_start sample_failing (JObj [(''requestId'', JStr ''r-1'')])
       (DGHandler_init\<lparr>h_app_properties := JObj []\<rparr>) =
     (None, \<lparr>h_status = READY, h_request = JObj [(''requestId'', JStr ''r-1'')],
       h_app_properties = JObj []\<rparr>)"
  "m_execute sample_failing
       \<lparr>h_status = READY, h_request = JObj [(''requestId'', JStr ''r-1'')],
        h_app_properties = JObj []\<rparr> =
     (Inr (JObj [(''status'', JStr ''ERROR''),
                 (''requestId'', JStr ''r-1''),
                 (''handlerType'', JStr ''PYTHON_TRANSFORM''),
                 (''errorCode'', JStr ''ValueError''),
                 (''errorMessage'', JStr ''Unknown operation''),
                 (''stackTrace'', JStr (sample_tb (Exc ''ValueError'' ''Unknown operation''))),
                 (''executionTimeMs'', JFloat 0)]),
      \<lparr>h_status = FAILED, h_request = JObj [(''requestId'', JStr ''r-1'')],
       h_app_properties = JObj []\<rparr>)"
  "m_stop sample_failing
       (JObj [(''status'', JStr ''ERROR''),
                 (''requestId'', JStr ''r-1''),
                 (''handlerType'', JStr ''PYTHON_TRANSFORM''),
                 (''errorCode'', JStr ''ValueError''),
                 (''errorMessage'', JStr ''Unknown operation''),
                 (''stackTrace'', JStr (sample_tb (Exc ''ValueError'' ''Unknown operation''))),
                 (''executionTimeMs'', JFloat 0)])
       \<lparr>h_status = FAILED, h_request = JObj [(''requestId'', JStr ''r-1'')],
        h_app_properties = JObj []\<rparr> =
     (None, \<lparr>h_status = STOPPED, h_request = JObj [(''requestId'', JStr ''r-1'')],
       h_app_properties = JObj []\<rparr>)"
  by (simp_all add: sample_failing_methods DGHandler_start_def DGHandler_init_def
        DGHandler_execute_def DGHandler_stop_def py_get_def dict_get_def Let_def)

section \<open>Dispatch in the worker\<close>

text \<open>
  C1.  When the \<open>request_json\<close> field of an execute envelope is a JSON object instead of
  a string, \<open>json.loads\<close> raises \<open>TypeError\<close>; \<open>handle_execute\<close> catches only
  \<open>json.JSONDecodeError\<close> around the parsing, so the exception leaves the function and
  no response is returned.  This holds in every environment and worker state.
\<close>

theorem C1_handle_execute_lets_type_error_escape:
  "handle_execute env
     (JObj [(''command'', JStr ''execute''),
            (''handler_module'', JStr ''handlers.sample''),
            (''handler_class'', JStr ''SampleHandler''),
            (''request_json'', JObj [(''requestId'', JStr ''r-1'')]),
            (''config_json'', JStr ''{}'')]) s =
   (Inl (Exc ''TypeError'' ''the JSON object must be str, bytes or bytearray, not dict''), s)"
  by (simp add: handle_execute_def parse_inputs_def py_json_loads_def dict_get_def type_name_def)

text \<open>
  Apart from that, \<open>handle_execute\<close> hands a response to its caller: whenever the two
  fields parse, or the parsing raises \<open>json.JSONDecodeError\<close>, whatever the resolution
  and the handler do.
\<close>

lemma handle_execute_returns:
  assumes "case parse_inputs env (dict_get d ''request_json'' (JStr ''{}''))
                  (dict_get d ''config_json'' (JStr ''{}'')) of
             Inl e \<Rightarrow> exc_kind e = ''JSONDecodeError'' | Inr _ \<Rightarrow> True"
  shows "\<exists>response. fst (handle_execute env (JObj d) s) = Inr response"
  using assms
  by (auto simp: handle_execute_def Let_def split: sum.splits prod.splits)

text \<open>
  C7.  For an envelope that is a dictionary: a command other than \<open>ping\<close>, \<open>execute\<close>
  and \<open>shutdown\<close> (an absent one counts as the empty string) is answered with status
  ERROR and the message \<open>Unknown command: \<close> followed by the command; \<open>ping\<close> is
  answered with status \<open>pong\<close>, the timestamp and the worker id; \<open>shutdown\<close> with
  \<open>shutdown_ack\<close>.  None of the three touches the worker state.
\<close>

theorem C7_handle_request_routes:
  assumes "command = dict_get d ''command'' (JStr '''')"
  shows "(command \<noteq> JStr ''ping'' \<and> command \<noteq> JStr ''execute'' \<and> command \<noteq> JStr ''shutdown''
            \<longrightarrow> handle_request env (JObj d) s =
                 (Inr (JObj [(''status'', JStr ''ERROR''),
                             (''error_message'', JStr (''Unknown command: '' @ fmt env command))]), s))
       \<and> (command = JStr ''ping''
            \<longrightarrow> handle_request env (JObj d) s =
                 (Inr (JObj [(''status'', JStr ''pong''),
                             (''timestamp'', JStr (utc_now env)),
                             (''worker_id'', JInt (WORKER_ID env))]), s))
       \<and> (command = JStr ''shutdown''
            \<longrightarrow> handle_request env (JObj d) s =
                 (Inr (JObj [(''status'', JStr ''shutdown_ack'')]), s))"
  using assms by (simp add: handle_request_def py_get_def)

theorem C7_handle_request_routes_witness:
  "handle_request sample_wenv (JObj [(''command'', JStr ''restart'')]) empty_worker =
     (Inr (JObj [(''status'', JStr ''ERROR''),
                 (''error_message'', JStr ''Unknown command: restart'')]), empty_worker)
   \<and> handle_request sample_wenv (JObj [(''command'', JStr ''ping'')]) empty_worker =
     (Inr (JObj [(''status'', JStr ''pong''),
                 (''timestamp'', JStr ''2026-01-01T00:00:00+00:00''),
                 (''worker_id'', JInt 0)]), empty_worker)
   \<and> handle_request sample_wenv (JObj [(''command'', JStr ''shutdown'')]) empty_worker =
     (Inr (JObj [(''status'', JStr ''shutdown_ack'')]), empty_worker)"
proof -
  have a: "JStr ''restart'' = dict_get [(''command'', JStr ''restart'')] ''command'' (JStr '''')"
    and b: "JStr ''ping'' = dict_get [(''command'', JStr ''ping'')] ''command'' (JStr '''')"
    and c: "JStr ''shutdown'' = dict_get [(''command'', JStr ''shutdown'')] ''command'' (JStr '''')"
    by (simp_all add: dict_get_def)
  show ?thesis
    using C7_handle_request_routes [OF a, of sample_wenv empty_worker]
      C7_handle_request_routes [OF b, of sample_wenv empty_worker]
      C7_handle_request_routes [OF c, of sample_wenv empty_worker]
    by (simp add: fmt_def sample_wenv_def)
qed

lemma normalize_result_dict:
  "normalize_result env (JObj r) =
     (let r2 = (if dict_has r ''status'' then r else dict_set r ''status'' (JStr ''SUCCESS''))
      in if \<not> dict_has r2 ''data'' \<and> dict_get r2 ''status'' JNull = JStr ''SUCCESS''
         then dict_set r2 ''data'' (JObj []) else r2)"
  by (simp add: normalize_result_def Let_def)

lemma normalize_result_props:
  assumes "r' = normalize_result env (JObj r)"
  shows "(\<not> dict_has r ''status'' \<longrightarrow> dict_get r' ''status'' JNull = JStr ''SUCCESS'')"
    and "(\<not> dict_has r ''data'' \<and> dict_get r' ''status'' JNull = JStr ''SUCCESS''
            \<longrightarrow> dict_get r' ''data'' JNull = JObj [])"
    and "(\<not> dict_has r ''data'' \<and> dict_get r' ''status'' JNull \<noteq> JStr ''SUCCESS''
            \<longrightarrow> \<not> dict_has r' ''data'')"
    and "(\<forall>k. dict_has r k \<longrightarrow> map_of r' k = map_of r k)"
    and "(\<forall>k. k \<noteq> ''status'' \<and> k \<noteq> ''data'' \<longrightarrow> map_of r' k = map_of r k)"
  using assms
  by (auto simp: normalize_result_dict Let_def dict_get_dict_set dict_has_dict_set
        map_of_dict_set dict_has_def dict_get_def split: if_splits option.splits)

lemma handle_execute_success:
  assumes "parse_inputs env (dict_get d ''request_json'' (JStr ''{}''))
             (dict_get d ''config_json'' (JStr ''{}'')) = Inr (request, config)"
    and "get_handler_instance env (dict_get d ''handler_module'' (JStr ''''))
             (dict_get d ''handler_class'' (JStr '''')) s = (Inr (key, h), s1)"
    and "w_construct (w_methods h) config (w_self h) = (None, st1)"
    and "w_execute (w_methods h) request (APP_PROPERTIES env) st1 = (Inr result, st2)"
  shows "fst (handle_execute env (JObj d) s) = Inr (JObj (normalize_result env result))"
  using assms
  by (simp add: handle_execute_def execute_body_def call_construct_def call_execute_def)

text \<open>
  C8.  In \<open>handle_execute\<close>, when the two fields parse, the handler is resolved, its
  \<open>construct\<close> returns and its \<open>execute\<close> returns the map \<open>r\<close>, the response is the map
  \<open>r'\<close> with: status SUCCESS if \<open>r\<close> has no status; data the empty map if \<open>r\<close> has no
  data and the status of \<open>r'\<close> is SUCCESS, and still no data if that status is not
  SUCCESS; every key of \<open>r\<close> with the value it has in \<open>r\<close>; and no change at any key
  other than status and data.
\<close>

theorem C8_missing_status_and_data_defaulted:
  assumes "parse_inputs env (dict_get d ''request_json'' (JStr ''{}''))
             (dict_get d ''config_json'' (JStr ''{}'')) = Inr (request, config)"
    and "get_handler_instance env (dict_get d ''handler_module'' (JStr ''''))
             (dict_get d ''handler_class'' (JStr '''')) s = (Inr (key, h), s1)"
    and "w_construct (w_methods h) config (w_self h) = (None, st1)"
    and "w_execute (w_methods h) request (APP_PROPERTIES env) st1 = (Inr (JObj r), st2)"
  shows "\<exists>r'. fst (handle_execute env (JObj d) s) = Inr (JObj r')
           \<and> (\<not> dict_has r ''status'' \<longrightarrow> dict_get r' ''status'' JNull = JStr ''SUCCESS'')
           \<and> (\<not> dict_has r ''data'' \<and> dict_get r' ''status'' JNull = JStr ''SUCCESS''
                 \<longrightarrow> dict_get r' ''data'' JNull = JObj [])
           \<and> (\<not> dict_has r ''data'' \<and> dict_get r' ''status'' JNull \<noteq> JStr ''SUCCESS''
                 \<longrightarrow> \<not> dict_has r' ''data'')
           \<and> (\<forall>k. dict_has r k \<longrightarrow> map_of r' k = map_of r k)
           \<and> (\<forall>k. k \<noteq> ''status'' \<and> k \<noteq> ''data'' \<longrightarrow> map_of r' k = map_of r k)"
proof -
  define r' where "r' = normalize_result env (JObj r)"
  have "fst (handle_execute env (JObj d) s) = Inr (JObj r')"
    unfolding r'_def by (rule handle_execute_success [OF assms])
  with normalize_result_props [OF r'_def] show ?thesis by blast
qed

theorem C8_missing_status_and_data_defaulted_witness:
  "\<exists>r'. fst (handle_execute sample_wenv (JObj sample_fields) empty_worker) = Inr (JObj r')
      \<and> dict_get r' ''status'' JNull = JStr ''SUCCESS''
      \<and> dict_get r' ''data'' JNull = JObj []
      \<and> map_of r' ''echo'' = Some (JObj [(''requestId'', JStr ''r-1'')])"
proof -
  have c: "w_construct (w_methods \<lparr>w_methods = sample_handler, w_self = JNull\<rparr>) (JObj [])
        (w_self \<lparr>w_methods = sample_handler, w_self = JNull\<rparr>) = (None, JObj [])"
    by (simp add: sample_handler_def truthy_def)
  have e: "w_execute (w_methods \<lparr>w_methods = sample_handler, w_self = JNull\<rparr>)
        (JObj [(''requestId'', JStr ''r-1'')]) (APP_PROPERTIES sample_wenv) (JObj []) =
      (Inr (JObj [(''echo'', JObj [(''requestId'', JStr ''r-1'')])]), JObj [])"
    by (simp add: sample_handler_def)
  show ?thesis
    using C8_missing_status_and_data_defaulted
      [OF sample_fields_parse sample_fields_resolution c e]
    by (auto simp: dict_has_def)
qed

section \<open>Cleanup and stop\<close>

lemma get_handler_instance_lifecycle:
  "lifecycle (snd (get_handler_instance env m c s)) = lifecycle s"
  by (simp add: get_handler_instance_def Let_def split: option.splits sum.splits)

lemma worker_no_handler_no_cleanup:
  assumes "parse_inputs env (dict_get d ''request_json'' (JStr ''{}''))
             (dict_get d ''config_json'' (JStr ''{}'')) = Inr (request, config)"
    and "get_handler_instance env (dict_get d ''handler_module'' (JStr ''''))
             (dict_get d ''handler_class'' (JStr '''')) s = (Inl e, s1)"
  shows "lifecycle (snd (handle_execute env (JObj d) s)) = lifecycle s"
  using assms get_handler_instance_lifecycle [of env "dict_get d ''handler_module'' (JStr '''')"
      "dict_get d ''handler_class'' (JStr '''')" s]
  by (simp add: handle_execute_def execute_body_def finally_cleanup_def)

lemma worker_cleanup_once:
  assumes "parse_inputs env (dict_get d ''request_json'' (JStr ''{}''))
             (dict_get d ''config_json'' (JStr ''{}'')) = Inr (request, config)"
    and "get_handler_instance env (dict_get d ''handler_module'' (JStr ''''))
             (dict_get d ''handler_class'' (JStr '''')) s = (Inr (key, h), s1)"
  shows "cleanup_count (lifecycle (snd (handle_execute env (JObj d) s))) =
           cleanup_count (lifecycle s) + 1"
    and "fst (handle_execute env (JObj d) s) =
           Inr (case w_construct (w_methods h) config (w_self h) of
                  (Some e, st1) \<Rightarrow>
                    failure_result env (dict_get d ''handler_module'' (JStr ''''))
                      (dict_get d ''handler_class'' (JStr '''')) e
                | (None, st1) \<Rightarrow>
                    (case w_execute (w_methods h) request (APP_PROPERTIES env) st1 of
                       (Inl e, st2) \<Rightarrow>
                         failure_result env (dict_get d ''handler_module'' (JStr ''''))
                           (dict_get d ''handler_class'' (JStr '''')) e
                     | (Inr result, st2) \<Rightarrow> JObj (normalize_result env result)))"
  using assms get_handler_instance_lifecycle [of env "dict_get d ''handler_module'' (JStr '''')"
      "dict_get d ''handler_class'' (JStr '''')" s]
  by (auto simp: handle_execute_def execute_body_def finally_cleanup_def call_construct_def
        call_execute_def call_cleanup_def store_instance_def cleanup_count_def
      split: prod.splits option.splits sum.splits)

lemma gateway_no_instance:
  assumes "construct_instance env self name req props = Inl (e, rq, self1)"
  shows "lifecycle_calls (executeHandler env self name req props) = []"
    and "instance_after (executeHandler env self name req props) = None"
    and "returned (executeHandler env self name req props) = JObj (error_response env name e rq)"
  using assms by (simp_all add: executeHandler_def try_block_def Let_def)

lemma gateway_start_raises:
  assumes "construct_instance env self name req props = Inr (request, cls, obj, self1)"
    and "m_start cls request obj = (Some e, obj1)"
  shows "returned (executeHandler env self name req props) =
           JObj (error_response env name e (Some request))"
    and "lifecycle_calls (executeHandler env self name req props) =
           [CallStart, CallStop (returned (executeHandler env self name req props))]"
    and "instance_after (executeHandler env self name req props) =
           Some (snd (m_stop cls (JObj (error_response env name e (Some request))) obj1))"
  using assms by (simp_all add: executeHandler_def try_block_def run_lifecycle_def Let_def)

lemma gateway_execute_raises:
  assumes "construct_instance env self name req props = Inr (request, cls, obj, self1)"
    and "m_start cls request obj = (None, obj1)"
    and "m_execute cls obj1 = (Inl e, obj2)"
  shows "returned (executeHandler env self name req props) =
           JObj (error_response env name e (Some request))"
    and "lifecycle_calls (executeHandler env self name req props) =
           [CallStart, CallRun, CallStop (returned (executeHandler env self name req props))]"
    and "instance_after (executeHandler env self name req props) =
           Some (snd (m_stop cls (JObj (error_response env name e (Some request))) obj2))"
  using assms by (simp_all add: executeHandler_def try_block_def run_lifecycle_def Let_def)

lemma gateway_success:
  assumes "construct_instance env self name req props = Inr (request, cls, obj, self1)"
    and "m_start cls request obj = (None, obj1)"
    and "m_execute cls obj1 = (Inr (JObj r), obj2)"
    and "m_stop cls (JObj r) obj2 = (None, obj3)"
    and "serializable (JObj r)"
  shows "returned (executeHandler env self name req props) = JObj r"
    and "lifecycle_calls (executeHandler env self name req props) =
           [CallStart, CallRun, CallStop (JObj r)]"
    and "instance_after (executeHandler env self name req props) = Some obj3"
  using assms
  by (simp_all add: executeHandler_def try_block_def run_lifecycle_def Let_def py_get_def
        serializable_def json_dumps_error_def)

lemma gateway_response_refused:
  assumes "construct_instance env self name req props = Inr (request, cls, obj, self1)"
    and "m_start cls request obj = (None, obj1)"
    and "m_execute cls obj1 = (Inr (JObj r), obj2)"
    and "m_stop cls (JObj r) obj2 = (None, obj3)"
    and "json_dumps_error (JObj r) = Some e"
  shows "returned (executeHandler env self name req props) =
           JObj (error_response env name e (Some request))"
    and "lifecycle_calls (executeHandler env self name req props) =
           [CallStart, CallRun, CallStop (JObj r),
            CallStop (returned (executeHandler env self name req props))]"
    and "instance_after (executeHandler env self name req props) =
           Some (snd (m_stop cls (JObj (error_response env name e (Some request))) obj3))"
  using assms
  by (simp_all add: executeHandler_def try_block_def run_lifecycle_def Let_def py_get_def)

text \<open>
  The claim as stated fails in the worker for an execute request that names a handler
  that cannot be imported: no \<open>cleanup\<close> is called, not one.
\<close>

theorem C2_counterexample_unresolved_handler:
  "cleanup_count
     (lifecycle (snd (handle_execute sample_wenv (JObj unknown_handler_fields) empty_worker)))
   = 0"
  by (simp add: handle_execute_def unknown_handler_fields_def dict_get_def sample_parse
        unknown_resolution execute_body_def finally_cleanup_def cleanup_count_def Let_def)
    (simp add: empty_worker_def)

text \<open>
  C2, as the code has it.  In the worker, once both fields are parsed: if the handler is
  resolved, \<open>cleanup\<close> is called exactly once, and the response is fixed by what
  \<open>construct\<close> and \<open>execute\<close> did, whatever \<open>cleanup\<close> returns or raises; if the resolution
  raises, no method of any handler is called; nor is any when a field does not parse.
  In the gateway: if no instance is
  constructed, \<open>stop\<close> is not called; if \<open>start\<close> or \<open>execute\<close> raises, \<open>stop\<close> is called
  exactly once, with the error response that is returned, whatever \<open>stop\<close> returns or
  raises; if \<open>start\<close>, \<open>execute\<close> and \<open>stop\<close> return and the response is a map that
  \<open>json.dumps\<close> accepts, \<open>stop\<close> is called exactly once, with the response that is
  returned.
\<close>

theorem C2_cleanup_once_for_an_existing_instance:
  "(parse_inputs env (dict_get d ''request_json'' (JStr ''{}''))
       (dict_get d ''config_json'' (JStr ''{}'')) = Inr (request, config)
     \<and> get_handler_instance env (dict_get d ''handler_module'' (JStr ''''))
           (dict_get d ''handler_class'' (JStr '''')) s = (Inr (key, h), s1)
     \<longrightarrow> cleanup_count (lifecycle (snd (handle_execute env (JObj d) s))) =
           cleanup_count (lifecycle s) + 1
         \<and> fst (handle_execute env (JObj d) s) =
             Inr (case w_construct (w_methods h) config (w_self h) of
                    (Some e, st1) \<Rightarrow>
                      failure_result env (dict_get d ''handler_module'' (JStr ''''))
                        (dict_get d ''handler_class'' (JStr '''')) e
                  | (None, st1) \<Rightarrow>
                      (case w_execute (w_methods h) request (APP_PROPERTIES env) st1 of
                         (Inl e, st2) \<Rightarrow>
                           failure_result env (dict_get d ''handler_module'' (JStr ''''))
                             (dict_get d ''handler_class'' (JStr '''')) e
                       | (Inr result, st2) \<Rightarrow> JObj (normalize_result env result))))
   \<and> (parse_inputs env (dict_get d ''request_json'' (JStr ''{}''))
       (dict_get d ''config_json'' (JStr ''{}'')) = Inr (request, config)
     \<and> get_handler_instance env (dict_get d ''handler_module'' (JStr ''''))
           (dict_get d ''handler_class'' (JStr '''')) s = (Inl e0, s0)
     \<longrightarrow> lifecycle (snd (handle_execute env (JObj d) s)) = lifecycle s)
   \<and> (construct_instance genv self name req props = Inl (e1, rq, self1)
     \<longrightarrow> stop_count (lifecycle_calls (executeHandler genv self name req props)) = 0)
   \<and> (construct_instance genv self name req props = Inr (rd, cls, obj, self2)
       \<and> m_start cls rd obj = (Some e2, obj1)
     \<longrightarrow> stop_count (lifecycle_calls (executeHandler genv self name req props)) = 1
         \<and> last (lifecycle_calls (executeHandler genv self name req props)) =
             CallStop (returned (executeHandler genv self name req props))
         \<and> returned (executeHandler genv self name req props) =
             JObj (error_response genv name e2 (Some rd)))
   \<and> (construct_instance genv self name req props = Inr (rd, cls, obj, self2)
       \<and> m_start cls rd obj = (None, obj1) \<and> m_execute cls obj1 = (Inl e3, obj2)
     \<longrightarrow> stop_count (lifecycle_calls (executeHandler genv self name req props)) = 1
         \<and> last (lifecycle_calls (executeHandler genv self name req props)) =
             CallStop (returned (executeHandler genv self name req props))
         \<and> returned (executeHandler genv self name req props) =
             JObj (error_response genv name e3 (Some rd)))
   \<and> (construct_instance genv self name req props = Inr (rd, cls, obj, self2)
       \<and> m_start cls rd obj = (None, obj1) \<and> m_execute cls obj1 = (Inr (JObj r), obj2)
       \<and> m_stop cls (JObj r) obj2 = (None, obj3) \<and> serializable (JObj r)
     \<longrightarrow> stop_count (lifecycle_calls (executeHandler genv self name req props)) = 1
         \<and> last (lifecycle_calls (executeHandler genv self name req props)) = CallStop (JObj r)
         \<and> returned (executeHandler genv self name req props) = JObj r)
   \<and> (parse_inputs env (dict_get d ''request_json'' (JStr ''{}''))
       (dict_get d ''config_json'' (JStr ''{}'')) = Inl e4
     \<longrightarrow> lifecycle (snd (handle_execute env (JObj d) s)) = lifecycle s)"
proof (intro conjI impI)
  assume a: "parse_inputs env (dict_get d ''request_json'' (JStr ''{}''))
       (dict_get d ''config_json'' (JStr ''{}'')) = Inr (request, config)
     \<and> get_handler_instance env (dict_get d ''handler_module'' (JStr ''''))
           (dict_get d ''handler_class'' (JStr '''')) s = (Inr (key, h), s1)"
  from a show "cleanup_count (lifecycle (snd (handle_execute env (JObj d) s))) =
           cleanup_count (lifecycle s) + 1"
    by (intro worker_cleanup_once(1)) auto
  from a show "fst (handle_execute env (JObj d) s) =
             Inr (case w_construct (w_methods h) config (w_self h) of
                    (Some e, st1) \<Rightarrow>
                      failure_result env (dict_get d ''handler_module'' (JStr ''''))
                        (dict_get d ''handler_class'' (JStr '''')) e
                  | (None, st1) \<Rightarrow>
                      (case w_execute (w_methods h) request (APP_PROPERTIES env) st1 of
                         (Inl e, st2) \<Rightarrow>
                           failure_result env (dict_get d ''handler_module'' (JStr ''''))
                             (dict_get d ''handler_class'' (JStr '''')) e
                       | (Inr result, st2) \<Rightarrow> JObj (normalize_result env result)))"
    by (intro worker_cleanup_once(2)) auto
next
  assume "parse_inputs env (dict_get d ''request_json'' (JStr ''{}''))
       (dict_get d ''config_json'' (JStr ''{}'')) = Inr (request, config)
     \<and> get_handler_instance env (dict_get d ''handler_module'' (JStr ''''))
           (dict_get d ''handler_class'' (JStr '''')) s = (Inl e0, s0)"
  then show "lifecycle (snd (handle_execute env (JObj d) s)) = lifecycle s"
    by (intro worker_no_handler_no_cleanup) auto
next
  assume "construct_instance genv self name req props = Inl (e1, rq, self1)"
  then show "stop_count (lifecycle_calls (executeHandler genv self name req props)) = 0"
    by (simp add: gateway_no_instance(1) stop_count_def)
next
  assume a: "construct_instance genv self name req props = Inr (rd, cls, obj, self2)
       \<and> m_start cls rd obj = (Some e2, obj1)"
  then have c: "construct_instance genv self name req props = Inr (rd, cls, obj, self2)"
    and st: "m_start cls rd obj = (Some e2, obj1)" by simp_all
  show "stop_count (lifecycle_calls (executeHandler genv self name req props)) = 1"
    by (simp add: gateway_start_raises(2) [OF c st] stop_count_def)
  show "last (lifecycle_calls (executeHandler genv self name req props)) =
             CallStop (returned (executeHandler genv self name req props))"
    by (simp add: gateway_start_raises(2) [OF c st])
  show "returned (executeHandler genv self name req props) =
             JObj (error_response genv name e2 (Some rd))"
    by (rule gateway_start_raises(1) [OF c st])
next
  assume a: "construct_instance genv self name req props = Inr (rd, cls, obj, self2)
       \<and> m_start cls rd obj = (None, obj1) \<and> m_execute cls obj1 = (Inl e3, obj2)"
  then have c: "construct_instance genv self name req props = Inr (rd, cls, obj, self2)"
    and st: "m_start cls rd obj = (None, obj1)"
    and ex: "m_execute cls obj1 = (Inl e3, obj2)" by simp_all
  show "stop_count (lifecycle_calls (executeHandler genv self name req props)) = 1"
    by (simp add: gateway_execute_raises(2) [OF c st ex] stop_count_def)
  show "last (lifecycle_calls (executeHandler genv self name req props)) =
             CallStop (returned (executeHandler genv self name req props))"
    by (simp add: gateway_execute_raises(2) [OF c st ex])
  show "returned (executeHandler genv self name req props) =
             JObj (error_response genv name e3 (Some rd))"
    by (rule gateway_execute_raises(1) [OF c st ex])
next
  assume a: "construct_instance genv self name req props = Inr (rd, cls, obj, self2)
       \<and> m_start cls rd obj = (None, obj1) \<and> m_execute cls obj1 = (Inr (JObj r), obj2)
       \<and> m_stop cls (JObj r) obj2 = (None, obj3) \<and> serializable (JObj r)"
  then have c: "construct_instance genv self name req props = Inr (rd, cls, obj, self2)"
    and st: "m_start cls rd obj = (None, obj1)"
    and ex: "m_execute cls obj1 = (Inr (JObj r), obj2)"
    and sp: "m_stop cls (JObj r) obj2 = (None, obj3)"
    and sr: "serializable (JObj r)" by simp_all
  show "stop_count (lifecycle_calls (executeHandler genv self name req props)) = 1"
    by (simp add: gateway_success(2) [OF c st ex sp sr] stop_count_def)
  show "last (lifecycle_calls (executeHandler genv self name req props)) = CallStop (JObj r)"
    by (simp add: gateway_success(2) [OF c st ex sp sr])
  show "returned (executeHandler genv self name req props) = JObj r"
    by (rule gateway_success(1) [OF c st ex sp sr])
next
  assume "parse_inputs env (dict_get d ''request_json'' (JStr ''{}''))
       (dict_get d ''config_json'' (JStr ''{}'')) = Inl e4"
  then show "lifecycle (snd (handle_execute env (JObj d) s)) = lifecycle s"
    by (simp add: handle_execute_def)
qed

theorem C2_cleanup_once_for_an_existing_instance_witness:
  "cleanup_count
     (lifecycle (snd (handle_execute sample_wenv (JObj sample_fields) empty_worker))) = 1
   \<and> fst (handle_execute sample_wenv (JObj sample_fields) empty_worker) =
       Inr (JObj [(''echo'', JObj [(''requestId'', JStr ''r-1'')]),
                  (''status'', JStr ''SUCCESS''), (''data'', JObj [])])
   \<and> lifecycle (snd (handle_execute sample_wenv (JObj unknown_handler_fields) empty_worker))
       = []
   \<and> stop_count (lifecycle_calls
         (executeHandler sample_genv fresh_delegate ''nosuch.Missing'' request_text '''')) = 0
   \<and> stop_count (lifecycle_calls
         (executeHandler sample_genv fresh_delegate ''handlers.samples.BadStop''
            request_text '''')) = 1
   \<and> response_field (returned
         (executeHandler sample_genv fresh_delegate ''handlers.samples.BadStop''
            request_text '''')) ''errorCode'' = JStr ''ValueError''
   \<and> stop_count (lifecycle_calls
         (executeHandler sample_genv fresh_delegate ''handlers.samples.Raising''
            request_text '''')) = 1
   \<and> response_field (returned
         (executeHandler sample_genv fresh_delegate ''handlers.samples.Raising''
            request_text '''')) ''errorMessage'' = JStr ''execute failed''
   \<and> stop_count (lifecycle_calls
         (executeHandler sample_genv fresh_delegate ''handlers.echo_handler.EchoPythonHandler''
            request_text '''')) = 1
   \<and> response_field (returned
         (executeHandler sample_genv fresh_delegate ''handlers.echo_handler.EchoPythonHandler''
            request_text '''')) ''status'' = JStr ''SUCCESS''
   \<and> lifecycle (snd (handle_execute sample_wenv (JObj unparsable_fields) empty_worker)) = []"
proof -
  note T = C2_cleanup_once_for_an_existing_instance
  have p7: "parse_inputs sample_wenv (dict_get unparsable_fields ''request_json'' (JStr ''{}''))
       (dict_get unparsable_fields ''config_json'' (JStr ''{}'')) =
       Inl (Exc ''JSONDecodeError'' ''Expecting value: line 1 column 1 (char 0)'')"
    by (simp add: unparsable_fields_def dict_get_def parse_inputs_def py_json_loads_def
          sample_wenv_def sample_loads_def request_text_def dq_def)
  have w7: "lifecycle
       (snd (handle_execute sample_wenv (JObj unparsable_fields) empty_worker)) = []"
    using T [THEN conjunct2, THEN conjunct2, THEN conjunct2, THEN conjunct2, THEN conjunct2,
        THEN conjunct2, rule_format, OF p7]
    by (simp add: empty_worker_def)
  note p1 = sample_fields_parse and r1 = sample_fields_resolution
    and p2 = unknown_fields_parse and r2 = unknown_fields_resolution
  have w1: "cleanup_count
       (lifecycle (snd (handle_execute sample_wenv (JObj sample_fields) empty_worker))) = 1
     \<and> fst (handle_execute sample_wenv (JObj sample_fields) empty_worker) =
       Inr (JObj [(''echo'', JObj [(''requestId'', JStr ''r-1'')]),
                  (''status'', JStr ''SUCCESS''), (''data'', JObj [])])"
    using T [THEN conjunct1, rule_format, OF conjI [OF p1 r1]]
    by (simp add: sample_handler_def truthy_def sample_wenv_def normalize_result_def
          dict_has_def dict_get_def Let_def cleanup_count_def empty_worker_def)
  have w2: "lifecycle
       (snd (handle_execute sample_wenv (JObj unknown_handler_fields) empty_worker)) = []"
    using T [THEN conjunct2, THEN conjunct1, rule_format, OF conjI [OF p2 r2]]
    by (simp add: empty_worker_def)
  have w3: "stop_count (lifecycle_calls
         (executeHandler sample_genv fresh_delegate ''nosuch.Missing'' request_text '''')) = 0"
    using T [THEN conjunct2, THEN conjunct2, THEN conjunct1, rule_format,
        OF construct_samples(1)] .
  have s4: "m_start sample_bad_stop (JObj [(''requestId'', JStr ''r-1'')])
       (DGHandler_init\<lparr>h_app_properties := JObj []\<rparr>) =
     (Some (Exc ''ValueError''
        (''Missing '' @ sq @ ''operation'' @ sq @ '' in payload. Supported: ''
         @ ''UPPERCASE, LOWERCASE, REVERSE, WORD_COUNT, SHA256, ''
         @ ''WORD_FREQ, JSON_FLATTEN'')),
      \<lparr>h_status = READY, h_request = JObj [(''requestId'', JStr ''r-1'')],
       h_app_properties = JObj []\<rparr>)"
    by (simp add: sample_bad_stop_def sample_strict_def sample_start_rejects)
  have w4: "stop_count (lifecycle_calls
         (executeHandler sample_genv fresh_delegate ''handlers.samples.BadStop''
            request_text '''')) = 1
     \<and> response_field (returned
         (executeHandler sample_genv fresh_delegate ''handlers.samples.BadStop''
            request_text '''')) ''errorCode'' = JStr ''ValueError''"
    using T [THEN conjunct2, THEN conjunct2, THEN conjunct2, THEN conjunct1, rule_format,
        OF conjI [OF construct_samples(2) s4]]
    by (simp add: response_field_def error_response_def py_get_def dict_get_def Let_def)
  have s5: "m_start sample_raising (JObj [(''requestId'', JStr ''r-1'')])
       (DGHandler_init\<lparr>h_app_properties := JObj []\<rparr>) =
     (None, \<lparr>h_status = READY, h_request = JObj [(''requestId'', JStr ''r-1'')],
       h_app_properties = JObj []\<rparr>)"
    by (simp add: sample_raising_def sample_echo_def EchoPythonHandler_def DGHandler_start_def
          DGHandler_init_def Let_def)
  have x5: "m_execute sample_raising
       \<lparr>h_status = READY, h_request = JObj [(''requestId'', JStr ''r-1'')],
        h_app_properties = JObj []\<rparr> =
     (Inl (Exc ''RuntimeError'' ''execute failed''),
      \<lparr>h_status = READY, h_request = JObj [(''requestId'', JStr ''r-1'')],
       h_app_properties = JObj []\<rparr>)"
    by (simp add: sample_raising_def)
  have w5: "stop_count (lifecycle_calls
         (executeHandler sample_genv fresh_delegate ''handlers.samples.Raising''
            request_text '''')) = 1
     \<and> response_field (returned
         (executeHandler sample_genv fresh_delegate ''handlers.samples.Raising''
            request_text '''')) ''errorMessage'' = JStr ''execute failed''"
    using T [THEN conjunct2, THEN conjunct2, THEN conjunct2, THEN conjunct2, THEN conjunct1,
        rule_format, OF conjI [OF construct_samples(3) conjI [OF s5 x5]]]
    by (simp add: response_field_def error_response_def py_get_def dict_get_def Let_def)
  have s6: "m_start sample_echo (JObj [(''requestId'', JStr ''r-1'')])
       (DGHandler_init\<lparr>h_app_properties := JObj []\<rparr>) =
     (None, \<lparr>h_status = READY, h_request = JObj [(''requestId'', JStr ''r-1'')],
       h_app_properties = JObj []\<rparr>)"
    by (simp add: sample_echo_def EchoPythonHandler_def DGHandler_start_def
          DGHandler_init_def Let_def)
  have x6: "m_execute sample_echo
       \<lparr>h_status = READY, h_request = JObj [(''requestId'', JStr ''r-1'')],
        h_app_properties = JObj []\<rparr> =
     (Inr (JObj [(''status'', JStr ''SUCCESS''),
               (''requestId'', JStr ''r-1''),
               (''handlerType'', JStr ''PYTHON_ECHO''),
               (''result'', JObj [(''echo'', JObj []),
                                  (''source'', JStr ''PYTHON_PY4J''),
                                  (''pythonVersion'', JStr ''3.12.0''),
                                  (''platform'', JStr ''Linux''),
                                  (''workerId'', JStr ''0''),
                                  (''pid'', JInt 4242),
                                  (''timestamp'', JStr ''2026-01-01T00:00:00+00:00''),
                                  (''requestId'', JStr ''r-1''),
                                  (''correlationId'', JNull),
                                  (''appName'', JStr ''DGFacade''),
                                  (''version'', JStr ''unknown'')]),
               (''executionTimeMs'', JFloat 0)]),
      \<lparr>h_status = STOPPED, h_request = JObj [(''requestId'', JStr ''r-1'')],
       h_app_properties = JObj []\<rparr>)"
    by (simp add: sample_echo_def EchoPythonHandler_def sample_echo_response)
  have t6: "m_stop sample_echo
       (JObj [(''status'', JStr ''SUCCESS''),
               (''requestId'', JStr ''r-1''),
               (''handlerType'', JStr ''PYTHON_ECHO''),
               (''result'', JObj [(''echo'', JObj []),
                                  (''source'', JStr ''PYTHON_PY4J''),
                                  (''pythonVersion'', JStr ''3.12.0''),
                                  (''platform'', JStr ''Linux''),
                                  (''workerId'', JStr ''0''),
                                  (''pid'', JInt 4242),
                                  (''timestamp'', JStr ''2026-01-01T00:00:00+00:00''),
                                  (''requestId'', JStr ''r-1''),
                                  (''correlationId'', JNull),
                                  (''appName'', JStr ''DGFacade''),
                                  (''version'', JStr ''unknown'')]),
               (''executionTimeMs'', JFloat 0)])
       \<lparr>h_status = STOPPED, h_request = JObj [(''requestId'', JStr ''r-1'')],
        h_app_properties = JObj []\<rparr> =
     (None, \<lparr>h_status = STOPPED, h_request = JObj [(''requestId'', JStr ''r-1'')],
        h_app_properties = JObj []\<rparr>)"
    by (simp add: sample_echo_def EchoPythonHandler_def DGHandler_stop_def)
  have j6: "serializable
       (JObj [(''status'', JStr ''SUCCESS''),
               (''requestId'', JStr ''r-1''),
               (''handlerType'', JStr ''PYTHON_ECHO''),
               (''result'', JObj [(''echo'', JObj []),
                                  (''source'', JStr ''PYTHON_PY4J''),
                                  (''pythonVersion'', JStr ''3.12.0''),
                                  (''platform'', JStr ''Linux''),
                                  (''workerId'', JStr ''0''),
                                  (''pid'', JInt 4242),
                                  (''timestamp'', JStr ''2026-01-01T00:00:00+00:00''),
                                  (''requestId'', JStr ''r-1''),
                                  (''correlationId'', JNull),
                                  (''appName'', JStr ''DGFacade''),
                                  (''version'', JStr ''unknown'')]),
               (''executionTimeMs'', JFloat 0)])"
    by (simp add: serializable_def)
  have w6: "stop_count (lifecycle_calls
         (executeHandler sample_genv fresh_delegate ''handlers.echo_handler.EchoPythonHandler''
            request_text '''')) = 1
     \<and> response_field (returned
         (executeHandler sample_genv fresh_delegate ''handlers.echo_handler.EchoPythonHandler''
            request_text '''')) ''status'' = JStr ''SUCCESS''"
    using T [THEN conjunct2, THEN conjunct2, THEN conjunct2, THEN conjunct2, THEN conjunct2,
        THEN conjunct1, rule_format,
        OF conjI [OF construct_samples(5) conjI [OF s6 conjI [OF x6 conjI [OF t6 j6]]]]]
    by (simp add: response_field_def dict_get_def)
  from w1 w2 w3 w4 w5 w6 w7 show ?thesis by simp
qed

text \<open>
  What the statement above leaves out, because \<open>stop\<close> is then called twice: on the
  success path of the gateway, when \<open>stop\<close> itself raises, the \<open>except\<close> block calls
  \<open>stop\<close> a second time and returns an error response in place of the response that
  \<open>execute\<close> built; and when \<open>stop\<close> returns but \<open>json.dumps\<close> refuses the response,
  the same happens (\<open>gateway_response_refused\<close>), as for the class whose result holds
  a \<open>set\<close>.
\<close>

lemma gateway_stop_raises_after_success:
  assumes "construct_instance env self name req props = Inr (request, cls, obj, self1)"
    and "m_start cls request obj = (None, obj1)"
    and "m_execute cls obj1 = (Inr response, obj2)"
    and "m_stop cls response obj2 = (Some e, obj3)"
  shows "returned (executeHandler env self name req props) =
           JObj (error_response env name e (Some request))"
    and "lifecycle_calls (executeHandler env self name req props) =
           [CallStart, CallRun, CallStop response,
            CallStop (returned (executeHandler env self name req props))]"
  using assms by (simp_all add: executeHandler_def try_block_def run_lifecycle_def Let_def)

lemma set_result_dispatch:
  "lifecycle_calls (executeHandler sample_genv fresh_delegate ''handlers.samples.SetResult''
      request_text '''') =
     [CallStart, CallRun,
      CallStop (JObj [(''status'', JStr ''SUCCESS''),
                      (''requestId'', JStr ''r-1''),
                      (''handlerType'', JStr ''PYTHON_TRANSFORM''),
                      (''result'', JObj [(''tags'', JObject ''set'')]),
                      (''executionTimeMs'', JFloat 0)]),
      CallStop (returned (executeHandler sample_genv fresh_delegate
        ''handlers.samples.SetResult'' request_text ''''))]"
  "returned (executeHandler sample_genv fresh_delegate ''handlers.samples.SetResult''
      request_text '''') =
     JObj [(''status'', JStr ''ERROR''),
           (''requestId'', JStr ''r-1''),
           (''handlerType'', JStr ''handlers.samples.SetResult''),
           (''errorCode'', JStr ''TypeError''),
           (''errorMessage'', JStr ''Object of type set is not JSON serializable''),
           (''stackTrace'', JStr (sample_tb
              (Exc ''TypeError'' ''Object of type set is not JSON serializable'')))]"
proof -
  let ?ready = "\<lparr>h_status = READY, h_request = JObj [(''requestId'', JStr ''r-1'')],
       h_app_properties = JObj []\<rparr>"
  let ?stopped = "\<lparr>h_status = STOPPED, h_request = JObj [(''requestId'', JStr ''r-1'')],
       h_app_properties = JObj []\<rparr>"
  let ?response = "[(''status'', JStr ''SUCCESS''),
                      (''requestId'', JStr ''r-1''),
                      (''handlerType'', JStr ''PYTHON_TRANSFORM''),
                      (''result'', JObj [(''tags'', JObject ''set'')]),
                      (''executionTimeMs'', JFloat 0)]"
  have st: "m_start sample_set_result (JObj [(''requestId'', JStr ''r-1'')])
       (DGHandler_init\<lparr>h_app_properties := JObj []\<rparr>) = (None, ?ready)"
    by (simp add: sample_set_result_def sample_echo_def EchoPythonHandler_def
          DGHandler_start_def DGHandler_init_def Let_def)
  have ex: "m_execute sample_set_result ?ready = (Inr (JObj ?response), ?stopped)"
    by (simp add: sample_set_result_def DGHandler_execute_def py_get_def dict_get_def Let_def)
  have sp: "m_stop sample_set_result (JObj ?response) ?stopped = (None, ?stopped)"
    by (simp add: sample_set_result_def sample_echo_def EchoPythonHandler_def
          DGHandler_stop_def)
  have je: "json_dumps_error (JObj ?response) =
      Some (Exc ''TypeError'' ''Object of type set is not JSON serializable'')"
    by (simp add: json_dumps_error_def)
  note r = gateway_response_refused [OF construct_samples(7) st ex sp je]
  show "lifecycle_calls (executeHandler sample_genv fresh_delegate
      ''handlers.samples.SetResult'' request_text '''') =
     [CallStart, CallRun, CallStop (JObj ?response),
      CallStop (returned (executeHandler sample_genv fresh_delegate
        ''handlers.samples.SetResult'' request_text ''''))]"
    by (rule r(2))
  show "returned (executeHandler sample_genv fresh_delegate ''handlers.samples.SetResult''
      request_text '''') =
     JObj [(''status'', JStr ''ERROR''),
           (''requestId'', JStr ''r-1''),
           (''handlerType'', JStr ''handlers.samples.SetResult''),
           (''errorCode'', JStr ''TypeError''),
           (''errorMessage'', JStr ''Object of type set is not JSON serializable''),
           (''stackTrace'', JStr (sample_tb
              (Exc ''TypeError'' ''Object of type set is not JSON serializable'')))]"
    unfolding r(1)
    by (simp add: error_response_def py_get_def dict_get_def Let_def sample_genv_def)
qed

section \<open>The frame codec\<close>

lemma recv_four:
  assumes "length (fst (recv 4 c)) = 4"
  shows "fst (recv 4 c) = take 4 (inbound c)"
    and "inbound (snd (recv 4 c)) = drop 4 (inbound c)"
    and "recv_calls (snd (recv 4 c)) = Suc (recv_calls c)"
    and "sent (snd (recv 4 c)) = sent c"
    and "closed (snd (recv 4 c)) = closed c"
  using assms by (auto simp: recv_def Let_def min_def max_def split: list.splits if_splits)

lemma read_message_rejects:
  assumes "length (fst (recv 4 c)) = 4"
    and "unpack_be32 (fst (recv 4 c)) = 0 \<or> 52428800 < unpack_be32 (fst (recv 4 c))"
  shows "read_message env c = (Inr JNull, snd (recv 4 c))"
  using assms by (auto simp: read_message_def Let_def split: prod.splits)

text \<open>
  C5.  When the four length bytes arrive and declare a length of zero or above
  52428800 (\<open>struct.unpack(">I")\<close> yields no negative number), \<open>read_message\<close> returns
  \<open>None\<close> after its single \<open>recv(4)\<close>: the bytes behind the prefix stay unread.
  \<open>handle_connection\<close> then sends nothing, closes the connection and returns \<open>True\<close>.
\<close>

theorem C5_bad_length_rejected_unread:
  assumes "length (fst (recv 4 c)) = 4"
    and "unpack_be32 (fst (recv 4 c)) = 0 \<or> 52428800 < unpack_be32 (fst (recv 4 c))"
  shows "fst (read_message env c) = Inr JNull
       \<and> recv_calls (snd (read_message env c)) = recv_calls c + 1
       \<and> inbound (snd (read_message env c)) = drop 4 (inbound c)
       \<and> fst (handle_connection env c s) = True
       \<and> snd (snd (handle_connection env c s)) = s
       \<and> sent (fst (snd (handle_connection env c s))) = sent c
       \<and> closed (fst (snd (handle_connection env c s)))
       \<and> recv_calls (fst (snd (handle_connection env c s))) = recv_calls c + 1
       \<and> inbound (fst (snd (handle_connection env c s))) = drop 4 (inbound c)"
  using read_message_rejects [OF assms, of env] recv_four [OF assms(1)]
  by (simp add: handle_connection_def close_conn_def)

text \<open>
  The frame of scenario 5: the length field 104857600, followed by three payload bytes,
  delivered in one piece.
\<close>

theorem C5_bad_length_rejected_unread_witness:
  "fst (read_message sample_wenv (fresh_conn [6, 64, 0, 0, 1, 2, 3] [])) = Inr JNull
   \<and> recv_calls (snd (read_message sample_wenv (fresh_conn [6, 64, 0, 0, 1, 2, 3] []))) = 1
   \<and> inbound (snd (read_message sample_wenv (fresh_conn [6, 64, 0, 0, 1, 2, 3] []))) = [1, 2, 3]
   \<and> sent (fst (snd (handle_connection sample_wenv (fresh_conn [6, 64, 0, 0, 1, 2, 3] [])
        empty_worker))) = []
   \<and> closed (fst (snd (handle_connection sample_wenv (fresh_conn [6, 64, 0, 0, 1, 2, 3] [])
        empty_worker)))"
proof -
  have r: "fst (recv 4 (fresh_conn [6, 64, 0, 0, 1, 2, 3] [])) = [6, 64, 0, 0]"
    by (simp add: recv_def fresh_conn_def)
  have a: "length (fst (recv 4 (fresh_conn [6, 64, 0, 0, 1, 2, 3] []))) = 4"
    by (simp add: r)
  have b: "unpack_be32 (fst (recv 4 (fresh_conn [6, 64, 0, 0, 1, 2, 3] []))) = 0
      \<or> 52428800 < unpack_be32 (fst (recv 4 (fresh_conn [6, 64, 0, 0, 1, 2, 3] [])))"
    by (simp add: r unpack_be32_def)
  show ?thesis
    using C5_bad_length_rejected_unread [OF a b, of sample_wenv empty_worker]
    by (simp add: fresh_conn_def)
qed

lemma unpack_be32_four:
  "unpack_be32 [a, b, c, d] = ((unat a * 256 + unat b) * 256 + unat c) * 256 + unat d"
  by (simp add: unpack_be32_def)

lemma unat_byte_of_nat: "unat (of_nat n :: byte) = n mod 256"
  by (simp add: unat_of_nat)

lemma four_bytes_of_nat:
  assumes "n < 2 ^ 32"
  shows "((n div 2 ^ 24 mod 256 * 256 + n div 2 ^ 16 mod 256) * 256 + n div 2 ^ 8 mod 256) * 256
          + n mod 256 = (n::nat)"
proof -
  define m1 where "m1 = n div 256"
  define m2 where "m2 = m1 div 256"
  define m3 where "m3 = m2 div 256"
  have d8: "n div 2 ^ 8 = m1" by (simp add: m1_def)
  have d16: "n div 2 ^ 16 = m2"
    unfolding m2_def m1_def by (simp add: div_mult2_eq [symmetric])
  have d24: "n div 2 ^ 24 = m3"
    unfolding m3_def m2_def m1_def by (simp add: div_mult2_eq [symmetric])
  have "m3 < 256" using assms unfolding d24 [symmetric] by (simp add: less_mult_imp_div_less)
  then have a: "m3 mod 256 * 256 + m2 mod 256 = m2" by (simp add: m3_def)
  have b: "m2 * 256 + m1 mod 256 = m1" by (simp add: m2_def)
  have c: "m1 * 256 + n mod 256 = n" by (simp add: m1_def)
  show ?thesis unfolding d8 d16 d24 a b c ..
qed

lemma unpack_pack_be32:
  assumes "n < 2 ^ 32"
  shows "\<exists>header. pack_be32 n = Inr header \<and> length header = 4 \<and> unpack_be32 header = n"
  using assms four_bytes_of_nat [OF assms]
  by (simp add: pack_be32_def unpack_be32_four unat_byte_of_nat)

lemma read_chunks_collects:
  "n \<le> length (inbound c) \<Longrightarrow>
     \<exists>chunks c'. read_chunks n acc c = (Some chunks, c')
        \<and> concat chunks = concat acc @ take n (inbound c)
        \<and> inbound c' = drop n (inbound c)"
proof (induction n acc c rule: read_chunks.induct)
  case (1 remaining chunks c)
  show ?case
  proof (cases "remaining > 0")
    case False
    then show ?thesis by (simp add: read_chunks.simps)
  next
    case True
    obtain chunk c' where r: "recv (min remaining 65536) c = (chunk, c')"
      by (cases "recv (min remaining 65536) c")
    define k where "k = length chunk"
    have ck: "chunk = take k (inbound c)" and c': "inbound c' = drop k (inbound c)"
      and kpos: "0 < k" and kle: "k \<le> remaining"
      using r True "1.prems"
      by (auto simp: recv_def Let_def k_def min_def max_def split: list.splits if_splits)
    have ne: "chunk \<noteq> []" using kpos by (auto simp: k_def)
    have "remaining - length chunk \<le> length (inbound c')"
      using "1.prems" c' by (simp add: k_def)
    from "1.IH" [OF True r [symmetric] ne this]
    obtain cs c'' where
      rc: "read_chunks (remaining - length chunk) (chunks @ [chunk]) c' = (Some cs, c'')"
      and cc: "concat cs = concat (chunks @ [chunk]) @ take (remaining - length chunk) (inbound c')"
      and ib: "inbound c'' = drop (remaining - length chunk) (inbound c')"
      by blast
    have t: "take k (inbound c) @ take (remaining - k) (drop k (inbound c))
              = take remaining (inbound c)"
      using kle by (metis le_add_diff_inverse take_add)
    have lk: "length chunk = k" by (simp add: k_def)
    have "read_chunks remaining chunks c = (Some cs, c'')"
      using True r ne rc by (subst read_chunks.simps) simp
    moreover have "concat cs = concat chunks @ take remaining (inbound c)"
      using cc [unfolded lk] t by (simp add: ck c')
    moreover have "inbound c'' = drop remaining (inbound c)"
      using ib [unfolded lk] kle by (simp add: c')
    ultimately show ?thesis by blast
  qed
qed

text \<open>
  What holds of the round trip.  Let \<open>M\<close> be a document that \<open>json.dumps\<close> accepts and
  that the JSON library reads back from its own encoding, with an encoding of at least
  one and at most 52428800 bytes.  \<open>write_message\<close> sends one frame for it without
  raising, and \<open>read_message\<close>, on a connection that carries this frame, returns \<open>M\<close>
  and leaves what follows the frame unread, however the network cuts the payload into
  chunks, provided the first \<open>recv\<close> delivers the four length bytes together.
\<close>

lemma frame_round_trip_whole_header:
  assumes "serializable M"
    and "loads_bytes env (dumps_bytes env M) = Inr M"
    and "0 < length (dumps_bytes env M)"
    and "length (dumps_bytes env M) \<le> 50 * 1024 * 1024"
    and "sent out = []"
    and "inbound c = concat (sent (snd (write_message env M out))) @ rest"
    and "chunking c = [] \<or> 4 \<le> hd (chunking c)"
  shows "fst (write_message env M out) = None
       \<and> fst (read_message env c) = Inr M
       \<and> inbound (snd (read_message env c)) = rest"
proof -
  define payload where "payload = dumps_bytes env M"
  have n32: "length payload < 2 ^ 32"
    using assms(4) by (simp add: payload_def)
  from unpack_pack_be32 [OF n32] obtain header where
    pk: "pack_be32 (length payload) = Inr header" and hl: "length header = 4"
    and up: "unpack_be32 header = length payload"
    by blast
  have wm: "write_message env M out = (None, sendall (header @ payload) out)"
    using pk assms(1)
    by (simp add: write_message_def payload_def Let_def serializable_def json_dumps_error_def)
  have ib: "inbound c = header @ payload @ rest"
    using assms(5,6) by (simp add: wm sendall_def)
  obtain raw c1 where r: "recv 4 c = (raw, c1)"
    by (cases "recv 4 c")
  have raw: "raw = header" and ib1: "inbound c1 = payload @ rest"
    using r assms(7) hl ib
    by (auto simp: recv_def Let_def min_def max_def split: list.splits if_splits)
  have "length payload \<le> length (inbound c1)"
    by (simp add: ib1)
  from read_chunks_collects [OF this, of "[]"] obtain chunks c2 where
    rc: "read_chunks (length payload) [] c1 = (Some chunks, c2)"
    and cc: "concat chunks = payload" and ib2: "inbound c2 = rest"
    by (auto simp: ib1)
  have rm: "read_message env c = (loads_bytes env payload, c2)"
    using r raw hl up rc cc assms(3,4)
    by (simp add: read_message_def Let_def payload_def)
  show ?thesis
    using wm rm ib2 assms(2) by (simp add: payload_def)
qed

text \<open>
  The header is read with one \<open>recv(4)\<close>, and fewer than four bytes are taken for the
  end of the stream, whatever is still to come.
\<close>

lemma read_message_short_header:
  assumes "length (fst (recv 4 c)) < 4"
  shows "read_message env c = (Inr JNull, snd (recv 4 c))"
  using assms by (cases "recv 4 c") (simp add: read_message_def)

lemma write_message_refuses:
  assumes "json_dumps_error M = Some e"
  shows "write_message env M out = (Some e, out)"
  using assms by (simp add: write_message_def)

text \<open>
  C6.  The round trip fails for the empty dictionary, whose encoding is the two bytes
  \<open>{}\<close>: \<open>write_message\<close> sends the frame \<open>00 00 00 02 7b 7d\<close>, and on a connection
  whose first \<open>recv\<close> delivers two of the four length bytes \<open>read_message\<close> returns
  \<open>None\<close>, not the dictionary.  The same frame is decoded when the header arrives whole
  and the payload one byte at a time: the payload loop accumulates partial reads, the
  header read does not.
\<close>

theorem C6_split_header_frame_lost:
  "write_message sample_wenv (JObj []) (fresh_conn [] []) =
     (None, fresh_conn [] []\<lparr>sent := [[0, 0, 0, 2, 123, 125]]\<rparr>)
   \<and> loads_bytes sample_wenv (dumps_bytes sample_wenv (JObj [])) = Inr (JObj [])
   \<and> fst (read_message sample_wenv (fresh_conn [0, 0, 0, 2, 123, 125] [2])) = Inr JNull
   \<and> inbound (snd (read_message sample_wenv (fresh_conn [0, 0, 0, 2, 123, 125] [2]))) =
       [0, 2, 123, 125]
   \<and> fst (read_message sample_wenv (fresh_conn [0, 0, 0, 2, 123, 125] [4, 1, 1])) =
       Inr (JObj [])"
proof -
  have w: "write_message sample_wenv (JObj []) (fresh_conn [] []) =
     (None, fresh_conn [] []\<lparr>sent := [[0, 0, 0, 2, 123, 125]]\<rparr>)"
    by (simp add: write_message_def json_dumps_error_def sample_wenv_def
          sample_dumps_bytes_def pack_be32_def sendall_def fresh_conn_def Let_def)
  have l: "loads_bytes sample_wenv (dumps_bytes sample_wenv (JObj [])) = Inr (JObj [])"
    by (simp add: sample_wenv_def sample_dumps_bytes_def sample_loads_bytes_def)
  have s: "length (fst (recv 4 (fresh_conn [0, 0, 0, 2, 123, 125] [2]))) < 4"
    by (simp add: recv_def fresh_conn_def)
  have r: "read_message sample_wenv (fresh_conn [0, 0, 0, 2, 123, 125] [2]) =
      (Inr JNull, snd (recv 4 (fresh_conn [0, 0, 0, 2, 123, 125] [2])))"
    using s by (rule read_message_short_header)
  have i: "inbound (snd (recv 4 (fresh_conn [0, 0, 0, 2, 123, 125] [2]))) = [0, 2, 123, 125]"
    by (simp add: recv_def fresh_conn_def)
  have "serializable (JObj [])"
    by (simp add: serializable_def)
  moreover have "0 < length (dumps_bytes sample_wenv (JObj []))"
    and "length (dumps_bytes sample_wenv (JObj [])) \<le> 50 * 1024 * 1024"
    by (simp_all add: sample_wenv_def sample_dumps_bytes_def)
  moreover have "sent (fresh_conn [] []) = []"
    by (simp add: fresh_conn_def)
  moreover have "inbound (fresh_conn [0, 0, 0, 2, 123, 125] [4, 1, 1]) =
      concat (sent (snd (write_message sample_wenv (JObj []) (fresh_conn [] [])))) @ []"
    by (simp add: w) (simp add: fresh_conn_def)
  moreover have "chunking (fresh_conn [0, 0, 0, 2, 123, 125] [4, 1, 1]) = []
      \<or> 4 \<le> hd (chunking (fresh_conn [0, 0, 0, 2, 123, 125] [4, 1, 1]))"
    by (simp add: fresh_conn_def)
  ultimately have g: "fst (read_message sample_wenv
      (fresh_conn [0, 0, 0, 2, 123, 125] [4, 1, 1])) = Inr (JObj [])"
    using frame_round_trip_whole_header [where M = "JObj []" and env = sample_wenv
        and out = "fresh_conn [] []" and c = "fresh_conn [0, 0, 0, 2, 123, 125] [4, 1, 1]"
        and rest = "[]"] l
    by blast
  from w l r i g show ?thesis by simp
qed

section \<open>The gateway: request ids and the final status\<close>

lemma construct_instance_Inr:
  assumes "construct_instance env self name req props = Inr (request, cls, obj, self1)"
  shows "load_class env name self = (Inr cls, self1)"
    and "g_loads env req = Inr request"
    and "\<exists>d. request = JObj d"
  using assms
  by (auto simp: construct_instance_def py_get_def
      split: sum.splits prod.splits json.splits if_splits)

lemma construct_instance_Inl:
  assumes "construct_instance env self name req props = Inl (e, rq, self1)"
  shows "rq = (case g_loads env req of Inl _ \<Rightarrow> None | Inr request \<Rightarrow> Some request)"
  using assms
  by (auto simp: construct_instance_def split: sum.splits prod.splits if_splits)

lemma error_response_request_id:
  "response_field (JObj (error_response env name e rq)) ''requestId'' =
     (case rq of
        Some (JObj d) \<Rightarrow> dict_get d ''requestId'' (JStr ''unknown'')
      | _ \<Rightarrow> JStr ''unknown'')"
  by (simp add: response_field_def error_response_def py_get_def dict_get_def Let_def
      split: option.splits json.splits)

lemma DGHandler_execute_request_id:
  assumes "DGHandler_execute tb el compute rt self = (Inr response, self')"
    and "h_request self = JObj d"
  shows "response_field response ''requestId'' = dict_get d ''requestId'' (JStr ''unknown'')"
  using assms
  by (auto simp: DGHandler_execute_def Let_def py_get_def response_field_def dict_get_def
      split: sum.splits)

lemma executeHandler_cases:
  assumes "construct_instance env self name req props = Inr (request, cls, obj, self1)"
  shows "returned (executeHandler env self name req props) =
           (case outcome (run_lifecycle cls obj request self1) of
              Inr response \<Rightarrow> response
            | Inl e \<Rightarrow> JObj (error_response env name e (Some request)))"
proof -
  have "request_dict (run_lifecycle cls obj request self1) = Some request"
    and "handler_instance (run_lifecycle cls obj request self1) \<noteq> None"
    by (auto simp: run_lifecycle_def split: prod.splits option.splits sum.splits)
  then show ?thesis
    using assms
    by (auto simp: executeHandler_def try_block_def Let_def split: sum.splits option.splits)
qed

lemma run_lifecycle_success:
  assumes "outcome (run_lifecycle cls obj request self1) = Inr response"
  shows "\<exists>obj2. m_execute cls (snd (m_start cls request obj)) = (Inr response, obj2)"
  using assms
  by (auto simp: run_lifecycle_def split: prod.splits option.splits sum.splits)

lemma sample_failing_serializable:
  "serializable
     (JObj [(''status'', JStr ''ERROR''),
            (''requestId'', JStr ''r-1''),
            (''handlerType'', JStr ''PYTHON_TRANSFORM''),
            (''errorCode'', JStr ''ValueError''),
            (''errorMessage'', JStr ''Unknown operation''),
            (''stackTrace'', JStr (sample_tb (Exc ''ValueError'' ''Unknown operation''))),
            (''executionTimeMs'', JFloat 0)])"
  by (simp add: serializable_def)

lemma sample_failing_dispatch:
  "returned (executeHandler sample_genv fresh_delegate ''handlers.samples.Failing''
      request_text '''') =
     JObj [(''status'', JStr ''ERROR''),
           (''requestId'', JStr ''r-1''),
           (''handlerType'', JStr ''PYTHON_TRANSFORM''),
           (''errorCode'', JStr ''ValueError''),
           (''errorMessage'', JStr ''Unknown operation''),
           (''stackTrace'', JStr (sample_tb (Exc ''ValueError'' ''Unknown operation''))),
           (''executionTimeMs'', JFloat 0)]"
  "instance_after (executeHandler sample_genv fresh_delegate ''handlers.samples.Failing''
      request_text '''') =
     Some \<lparr>h_status = STOPPED, h_request = JObj [(''requestId'', JStr ''r-1'')],
       h_app_properties = JObj []\<rparr>"
  by (rule gateway_success [OF construct_samples(4) sample_failing_run
        sample_failing_serializable])+

lemma not_json_dispatch:
  "returned (executeHandler sample_genv fresh_delegate ''handlers.samples.Failing''
      ''not json'' '''') =
     JObj (error_response sample_genv ''handlers.samples.Failing''
       (Exc ''JSONDecodeError'' ''Expecting value: line 1 column 1 (char 0)'') None)"
proof -
  have "construct_instance sample_genv fresh_delegate ''handlers.samples.Failing''
      ''not json'' '''' =
    Inl (Exc ''JSONDecodeError'' ''Expecting value: line 1 column 1 (char 0)'', None,
         fresh_delegate)"
    by (simp add: construct_instance_def not_json_rejected)
  then show ?thesis by (rule gateway_no_instance(3))
qed

text \<open>
  C9.  For a handler class that inherits \<open>DGHandler.execute\<close> and whose \<open>start\<close> stores
  the request as \<open>DGHandler.start\<close> does: whenever \<open>executeHandler\<close> returns a response
  with status ERROR, its \<open>requestId\<close> is the \<open>requestId\<close> entry of the request when the
  request text parsed to a map (\<open>unknown\<close> when the map has no such entry), and
  \<open>unknown\<close> when the text did not parse or parsed to something that is not a map.
\<close>

theorem C9_error_response_request_id:
  assumes "\<And>cls self1. load_class env name self = (Inr cls, self1) \<Longrightarrow>
             (\<exists>tb el compute rt. m_execute cls = DGHandler_execute tb el compute rt)
             \<and> (\<forall>r obj. h_request (snd (m_start cls r obj)) = r)"
  shows "response_field (returned (executeHandler env self name req props)) ''status''
           = JStr ''ERROR''
         \<longrightarrow> response_field (returned (executeHandler env self name req props)) ''requestId''
           = (case g_loads env req of
                Inr (JObj d) \<Rightarrow> dict_get d ''requestId'' (JStr ''unknown'')
              | _ \<Rightarrow> JStr ''unknown'')"
proof (cases "construct_instance env self name req props")
  case (Inl a)
  obtain e rq self1 where a: "a = (e, rq, self1)" by (cases a)
  show ?thesis
    using gateway_no_instance(3) [OF Inl [unfolded a]] construct_instance_Inl [OF Inl [unfolded a]]
    by (simp add: error_response_request_id split: sum.splits json.splits)
next
  case (Inr b)
  obtain request cls obj self1 where b: "b = (request, cls, obj, self1)" by (cases b)
  note ci = Inr [unfolded b]
  from construct_instance_Inr [OF ci] obtain d where
    lc: "load_class env name self = (Inr cls, self1)"
    and gl: "g_loads env req = Inr request" and rd: "request = JObj d"
    by blast
  from assms [OF lc] obtain tb el compute rt where
    ex: "m_execute cls = DGHandler_execute tb el compute rt"
    and st: "h_request (snd (m_start cls request obj)) = request"
    by blast
  show ?thesis
  proof (cases "outcome (run_lifecycle cls obj request self1)")
    case (Inl e)
    then show ?thesis
      using executeHandler_cases [OF ci] gl rd by (simp add: error_response_request_id)
  next
    case (Inr response)
    from run_lifecycle_success [OF Inr] obtain obj2 where
      "DGHandler_execute tb el compute rt (snd (m_start cls request obj)) = (Inr response, obj2)"
      by (auto simp: ex)
    moreover have "h_request (snd (m_start cls request obj)) = JObj d"
      using st rd by simp
    ultimately have "response_field response ''requestId'' =
        dict_get d ''requestId'' (JStr ''unknown'')"
      by (rule DGHandler_execute_request_id)
    then show ?thesis
      using executeHandler_cases [OF ci] Inr gl rd by simp
  qed
qed

theorem C9_error_response_request_id_witness:
  "response_field (returned (executeHandler sample_genv fresh_delegate
       ''handlers.samples.Failing'' request_text '''')) ''status'' = JStr ''ERROR''
   \<and> response_field (returned (executeHandler sample_genv fresh_delegate
       ''handlers.samples.Failing'' request_text '''')) ''requestId'' = JStr ''r-1''
   \<and> response_field (returned (executeHandler sample_genv fresh_delegate
       ''handlers.samples.Failing'' ''not json'' '''')) ''status'' = JStr ''ERROR''
   \<and> response_field (returned (executeHandler sample_genv fresh_delegate
       ''handlers.samples.Failing'' ''not json'' '''')) ''requestId'' = JStr ''unknown''"
proof -
  have h: "(\<exists>tb el compute rt. m_execute cls = DGHandler_execute tb el compute rt)
      \<and> (\<forall>r obj. h_request (snd (m_start cls r obj)) = r)"
    if "load_class sample_genv ''handlers.samples.Failing'' fresh_delegate = (Inr cls, self1)"
    for cls self1
  proof -
    from that have c: "cls = sample_failing" by (simp add: load_sample_failing)
    have "\<exists>tb el compute rt. m_execute cls = DGHandler_execute tb el compute rt"
      unfolding c sample_failing_methods by blast
    moreover have "\<forall>r obj. h_request (snd (m_start cls r obj)) = r"
      unfolding c sample_failing_methods by (simp add: DGHandler_start_def Let_def)
    ultimately show ?thesis by blast
  qed
  have s1: "response_field (returned (executeHandler sample_genv fresh_delegate
       ''handlers.samples.Failing'' request_text '''')) ''status'' = JStr ''ERROR''"
    by (simp add: sample_failing_dispatch response_field_def dict_get_def)
  have s2: "response_field (returned (executeHandler sample_genv fresh_delegate
       ''handlers.samples.Failing'' ''not json'' '''')) ''status'' = JStr ''ERROR''"
    by (simp add: not_json_dispatch response_field_def error_response_def dict_get_def)
  have i1: "response_field (returned (executeHandler sample_genv fresh_delegate
       ''handlers.samples.Failing'' request_text '''')) ''requestId'' = JStr ''r-1''"
    using C9_error_response_request_id [OF h, where req = request_text and props = "''''"] s1
    by (simp add: sample_request_parses dict_get_def)
  have i2: "response_field (returned (executeHandler sample_genv fresh_delegate
       ''handlers.samples.Failing'' ''not json'' '''')) ''requestId'' = JStr ''unknown''"
    using C9_error_response_request_id [OF h, where req = "''not json''" and props = "''''"] s2
    by (simp add: not_json_rejected)
  from s1 i1 s2 i2 show ?thesis by simp
qed

lemma executeHandler_base_stop:
  assumes "construct_instance env self name req props = Inr (request, cls, obj, self1)"
    and "m_stop cls = DGHandler_stop"
  shows "\<exists>final. instance_after (executeHandler env self name req props) = Some final
           \<and> h_status final = STOPPED"
    and "lifecycle_calls (executeHandler env self name req props) \<noteq> []"
    and "is_stop (last (lifecycle_calls (executeHandler env self name req props)))"
  using assms
  by (auto simp: executeHandler_def try_block_def run_lifecycle_def Let_def DGHandler_stop_def
      split: sum.splits option.splits prod.splits)

lemma executeHandler_failed_overwritten:
  assumes "construct_instance env self name req props = Inr (request, cls, obj, self1)"
    and "m_stop cls = DGHandler_stop"
    and "m_start cls request obj = (None, ready)"
    and "m_execute cls = DGHandler_execute tb el compute rt"
    and "compute (ready\<lparr>h_status := EXECUTING\<rparr>) (h_request ready) = Inl e"
  shows "h_status (snd (m_execute cls ready)) = FAILED"
    and "instance_after (executeHandler env self name req props) =
           Some ((snd (m_execute cls ready))\<lparr>h_status := STOPPED\<rparr>)"
  using assms
  by (auto simp: executeHandler_def try_block_def run_lifecycle_def Let_def DGHandler_stop_def
        DGHandler_execute_def py_get_def
      split: sum.splits option.splits prod.splits json.splits)

lemma DGHandler_execute_failed:
  assumes "compute (self\<lparr>h_status := EXECUTING\<rparr>) (h_request self) = Inl e"
  shows "h_status (snd (DGHandler_execute tb el compute rt self)) = FAILED"
  using assms by (simp add: DGHandler_execute_def Let_def split: sum.splits)

lemma sample_strict_dispatch:
  "returned (executeHandler sample_genv fresh_delegate ''handlers.samples.Strict''
      request_text '''') =
     JObj (error_response sample_genv ''handlers.samples.Strict''
       (Exc ''ValueError''
          (''Missing '' @ sq @ ''operation'' @ sq @ '' in payload. Supported: ''
           @ ''UPPERCASE, LOWERCASE, REVERSE, WORD_COUNT, SHA256, ''
           @ ''WORD_FREQ, JSON_FLATTEN''))
       (Some (JObj [(''requestId'', JStr ''r-1'')])))"
  "lifecycle_calls (executeHandler sample_genv fresh_delegate ''handlers.samples.Strict''
      request_text '''') =
     [CallStart, CallStop (returned (executeHandler sample_genv fresh_delegate
        ''handlers.samples.Strict'' request_text ''''))]"
proof -
  have st: "m_start sample_strict (JObj [(''requestId'', JStr ''r-1'')])
       (DGHandler_init\<lparr>h_app_properties := JObj []\<rparr>) =
     (Some (Exc ''ValueError''
        (''Missing '' @ sq @ ''operation'' @ sq @ '' in payload. Supported: ''
         @ ''UPPERCASE, LOWERCASE, REVERSE, WORD_COUNT, SHA256, ''
         @ ''WORD_FREQ, JSON_FLATTEN'')),
      \<lparr>h_status = READY, h_request = JObj [(''requestId'', JStr ''r-1'')],
       h_app_properties = JObj []\<rparr>)"
    by (simp add: sample_strict_def sample_start_rejects)
  note r = gateway_start_raises [OF construct_samples(6) st]
  show "returned (executeHandler sample_genv fresh_delegate ''handlers.samples.Strict''
      request_text '''') =
     JObj (error_response sample_genv ''handlers.samples.Strict''
       (Exc ''ValueError''
          (''Missing '' @ sq @ ''operation'' @ sq @ '' in payload. Supported: ''
           @ ''UPPERCASE, LOWERCASE, REVERSE, WORD_COUNT, SHA256, ''
           @ ''WORD_FREQ, JSON_FLATTEN''))
       (Some (JObj [(''requestId'', JStr ''r-1'')])))"
    by (rule r(1))
  show "lifecycle_calls (executeHandler sample_genv fresh_delegate ''handlers.samples.Strict''
      request_text '''') =
     [CallStart, CallStop (returned (executeHandler sample_genv fresh_delegate
        ''handlers.samples.Strict'' request_text ''''))]"
    by (rule r(2))
qed

text \<open>
  C10.  \<open>DGHandler.stop\<close> never raises and leaves the status STOPPED, whatever the status
  before and whatever response it is given.  Hence, whenever \<open>executeHandler\<close> has
  constructed an instance of a handler class that inherits \<open>stop\<close>, the dispatch ends
  with a call of \<open>stop\<close> and leaves that instance with status STOPPED, on the success
  path and on the error path alike.  When \<open>compute\<close> raises, \<open>DGHandler.execute\<close> leaves
  the status FAILED and the \<open>stop\<close> that follows overwrites it: for the method alone, and
  inside a dispatch to a class that inherits \<open>execute\<close>, where the instance is left as
  \<open>execute\<close> left it but for the status STOPPED.
\<close>

theorem C10_final_status_stopped:
  assumes "construct_instance env self name req props = Inr (request, cls, obj, self1)"
    and "m_stop cls = DGHandler_stop"
  shows "DGHandler_stop response before = (None, before\<lparr>h_status := STOPPED\<rparr>)
       \<and> (\<exists>final. instance_after (executeHandler env self name req props) = Some final
              \<and> h_status final = STOPPED)
       \<and> lifecycle_calls (executeHandler env self name req props) \<noteq> []
       \<and> is_stop (last (lifecycle_calls (executeHandler env self name req props)))
       \<and> (\<forall>e. compute (inst\<lparr>h_status := EXECUTING\<rparr>) (h_request inst) = Inl e
              \<longrightarrow> h_status (snd (DGHandler_execute tb el compute rt inst)) = FAILED
                \<and> h_status (snd (DGHandler_stop response
                      (snd (DGHandler_execute tb el compute rt inst)))) = STOPPED)
       \<and> (\<forall>ready e. m_start cls request obj = (None, ready)
                \<and> m_execute cls = DGHandler_execute tb el compute rt
                \<and> compute (ready\<lparr>h_status := EXECUTING\<rparr>) (h_request ready) = Inl e
              \<longrightarrow> h_status (snd (m_execute cls ready)) = FAILED
                \<and> instance_after (executeHandler env self name req props) =
                    Some ((snd (m_execute cls ready))\<lparr>h_status := STOPPED\<rparr>))"
proof (intro conjI allI impI)
  show "DGHandler_stop response before = (None, before\<lparr>h_status := STOPPED\<rparr>)"
    by (simp add: DGHandler_stop_def)
next
  show "\<exists>final. instance_after (executeHandler env self name req props) = Some final
      \<and> h_status final = STOPPED"
    by (rule executeHandler_base_stop(1) [OF assms])
next
  show "lifecycle_calls (executeHandler env self name req props) \<noteq> []"
    by (rule executeHandler_base_stop(2) [OF assms])
next
  show "is_stop (last (lifecycle_calls (executeHandler env self name req props)))"
    by (rule executeHandler_base_stop(3) [OF assms])
next
  fix e
  assume "compute (inst\<lparr>h_status := EXECUTING\<rparr>) (h_request inst) = Inl e"
  then show "h_status (snd (DGHandler_execute tb el compute rt inst)) = FAILED"
    by (rule DGHandler_execute_failed)
next
  fix e
  show "h_status (snd (DGHandler_stop response
          (snd (DGHandler_execute tb el compute rt inst)))) = STOPPED"
    by (simp add: DGHandler_stop_def)
next
  fix ready e
  assume a: "m_start cls request obj = (None, ready)
      \<and> m_execute cls = DGHandler_execute tb el compute rt
      \<and> compute (ready\<lparr>h_status := EXECUTING\<rparr>) (h_request ready) = Inl e"
  then have st: "m_start cls request obj = (None, ready)"
    and ex: "m_execute cls = DGHandler_execute tb el compute rt"
    and cp: "compute (ready\<lparr>h_status := EXECUTING\<rparr>) (h_request ready) = Inl e"
    by simp_all
  show "h_status (snd (m_execute cls ready)) = FAILED"
    by (rule executeHandler_failed_overwritten(1) [OF assms st ex cp])
  show "instance_after (executeHandler env self name req props) =
      Some ((snd (m_execute cls ready))\<lparr>h_status := STOPPED\<rparr>)"
    by (rule executeHandler_failed_overwritten(2) [OF assms st ex cp])
qed

text \<open>
  The theorem at a class whose \<open>start\<close> raises, where \<open>stop\<close> is called by the \<open>except\<close>
  block on an instance with status READY, and at a class whose \<open>compute\<close> raises.
\<close>

theorem C10_final_status_stopped_witness:
  "response_field (returned (executeHandler sample_genv fresh_delegate
       ''handlers.samples.Strict'' request_text '''')) ''errorCode'' = JStr ''ValueError''
   \<and> stop_count (lifecycle_calls (executeHandler sample_genv fresh_delegate
       ''handlers.samples.Strict'' request_text '''')) = 1
   \<and> h_status (the (instance_after (executeHandler sample_genv fresh_delegate
       ''handlers.samples.Strict'' request_text ''''))) = STOPPED
   \<and> h_status (snd (m_execute sample_failing
        \<lparr>h_status = READY, h_request = JObj [(''requestId'', JStr ''r-1'')],
         h_app_properties = JObj []\<rparr>)) = FAILED
   \<and> instance_after (executeHandler sample_genv fresh_delegate ''handlers.samples.Failing''
        request_text '''') =
       Some \<lparr>h_status = STOPPED, h_request = JObj [(''requestId'', JStr ''r-1'')],
         h_app_properties = JObj []\<rparr>"
proof -
  have s1: "m_stop sample_strict = DGHandler_stop"
    by (simp add: sample_strict_def sample_echo_def EchoPythonHandler_def)
  have a: "response_field (returned (executeHandler sample_genv fresh_delegate
       ''handlers.samples.Strict'' request_text '''')) ''errorCode'' = JStr ''ValueError''"
    by (simp add: sample_strict_dispatch(1) response_field_def error_response_def py_get_def
          dict_get_def Let_def)
  have b: "stop_count (lifecycle_calls (executeHandler sample_genv fresh_delegate
       ''handlers.samples.Strict'' request_text '''')) = 1"
    by (simp add: sample_strict_dispatch(2) stop_count_def)
  have c: "h_status (the (instance_after (executeHandler sample_genv fresh_delegate
       ''handlers.samples.Strict'' request_text ''''))) = STOPPED"
    using C10_final_status_stopped [OF construct_samples(6) s1, THEN conjunct2, THEN conjunct1]
    by auto
  have cp: "(\<lambda>self request. Inl (Exc ''ValueError'' ''Unknown operation'') :: exc + json)
       (\<lparr>h_status = READY, h_request = JObj [(''requestId'', JStr ''r-1'')],
         h_app_properties = JObj []\<rparr>\<lparr>h_status := EXECUTING\<rparr>)
       (h_request \<lparr>h_status = READY, h_request = JObj [(''requestId'', JStr ''r-1'')],
         h_app_properties = JObj []\<rparr>) = Inl (Exc ''ValueError'' ''Unknown operation'')"
    by simp
  have d: "h_status (snd (m_execute sample_failing
        \<lparr>h_status = READY, h_request = JObj [(''requestId'', JStr ''r-1'')],
         h_app_properties = JObj []\<rparr>)) = FAILED
     \<and> instance_after (executeHandler sample_genv fresh_delegate ''handlers.samples.Failing''
        request_text '''') =
       Some ((snd (m_execute sample_failing
        \<lparr>h_status = READY, h_request = JObj [(''requestId'', JStr ''r-1'')],
         h_app_properties = JObj []\<rparr>))\<lparr>h_status := STOPPED\<rparr>)"
    using C10_final_status_stopped [OF construct_samples(4) sample_failing_methods(3),
        THEN conjunct2, THEN conjunct2, THEN conjunct2, THEN conjunct2, THEN conjunct2,
        rule_format, OF conjI [OF sample_failing_run(1) conjI [OF sample_failing_methods(2) cp]]]
    .
  from a b c d show ?thesis
    by (simp add: sample_failing_run(2))
qed

end
